theory Spec2Isabelle
  imports Main
begin

section \<open>Paths, as \<^verbatim>\<open>pathlib\<close> builds them\<close>

text \<open>
  A \<^verbatim>\<open>pathlib.Path\<close> on POSIX is a flag (absolute or relative) and its list of name
  components. \<^verbatim>\<open>Path(s)\<close> splits the string at \<^verbatim>\<open>/\<close> and drops empty and \<^verbatim>\<open>.\<close>
  components; \<^verbatim>\<open>p / s\<close> appends the components of \<^verbatim>\<open>s\<close>, unless \<^verbatim>\<open>s\<close> is absolute, in
  which case it replaces \<^verbatim>\<open>p\<close>. The special root \<^verbatim>\<open>//\<close> of POSIX is not modelled.
\<close>

datatype path = PosixPath (is_absolute: bool) (names: "string list")

fun split_sep :: "char \<Rightarrow> string \<Rightarrow> string list" where
  "split_sep sep [] = [[]]"
| "split_sep sep (c # cs) =
     (if c = sep then [] # split_sep sep cs
      else (case split_sep sep cs of [] \<Rightarrow> [[c]] | x # xs \<Rightarrow> (c # x) # xs))"

definition Path :: "string \<Rightarrow> path" where
  "Path s = PosixPath (take 1 s = ''/'')
              (filter (\<lambda>n. n \<noteq> [] \<and> n \<noteq> ''.'') (split_sep (CHR ''/'') s))"

definition joinpath :: "path \<Rightarrow> string \<Rightarrow> path" where
  "joinpath p s =
     (let q = Path s
      in if is_absolute q then q else PosixPath (is_absolute p) (names p @ names q))"

fun intercalate :: "string \<Rightarrow> string list \<Rightarrow> string" where
  "intercalate sep [] = []"
| "intercalate sep [x] = x"
| "intercalate sep (x # y # ys) = x @ sep @ intercalate sep (y # ys)"

definition path_str :: "path \<Rightarrow> string" where
  "path_str p =
     (if is_absolute p then ''/'' @ intercalate ''/'' (names p)
      else if names p = [] then ''.'' else intercalate ''/'' (names p))"

definition path_name :: "path \<Rightarrow> string" where
  "path_name p = (if names p = [] then [] else last (names p))"

section \<open>The file system and the process\<close>

text \<open>
  The file system is a table from absolute locations (lists of names below the root) to
  entries. A symbolic link stores its target as it was given; a relative target is read
  from the directory that holds the link. The table is flat: the components inside a
  location are not themselves resolved through links, \<^verbatim>\<open>..\<close> is an ordinary name, and
  permissions are not modelled.
\<close>

datatype node = File string | Dir | Symlink path

type_synonym location = "string list"

type_synonym filesystem = "location \<Rightarrow> node option"

definition absolute_names :: "location \<Rightarrow> path \<Rightarrow> location" where
  "absolute_names base p = (if is_absolute p then names p else base @ names p)"

datatype lookup = Found location node | Missing location | TooManyLinks

text \<open>
  \<open>follow n f l\<close> is what \<^verbatim>\<open>stat\<close> sees at \<open>l\<close> when it may traverse \<open>n\<close> links: the
  entry the chain of links ends in, the place where the chain breaks, or \<^verbatim>\<open>ELOOP\<close>.
\<close>

fun follow :: "nat \<Rightarrow> filesystem \<Rightarrow> location \<Rightarrow> lookup" where
  "follow 0 f l =
     (case f l of
        None \<Rightarrow> Missing l
      | Some nd \<Rightarrow> (case nd of Symlink t \<Rightarrow> TooManyLinks | File c \<Rightarrow> Found l nd | Dir \<Rightarrow> Found l nd))"
| "follow (Suc n) f l =
     (case f l of
        None \<Rightarrow> Missing l
      | Some nd \<Rightarrow>
          (case nd of
             Symlink t \<Rightarrow> follow n f (absolute_names (butlast l) t)
           | File c \<Rightarrow> Found l nd
           | Dir \<Rightarrow> Found l nd))"

definition MAXSYMLINKS :: nat where
  "MAXSYMLINKS = 40"

datatype error =
    FileNotFoundError string
  | FileExistsError string
  | IsADirectoryError string
  | NotADirectoryError string
  | OSError string
  | TypeError
  | AttributeError
  | External string

text \<open>
  A call of a collaborator that lives outside \<^verbatim>\<open>payu/branch.py\<close> (the git helpers, the
  configuration reader, \<^verbatim>\<open>Laboratory\<close>, \<^verbatim>\<open>Metadata\<close>) is recorded with its arguments.
\<close>

datatype call =
    Call_read_config "path option"
  | Call_git_checkout_branch path string bool "string option"
  | Call_Laboratory "string option" path "path option"
  | Call_Metadata path string path
  | Call_metadata_setup bool bool
  | Call_git_clone string path "string option"
  | Call_get_git_branch path
  | Call_get_git_repository path
  | Call_remote_branches_dict
  | Call_local_branches_dict

text \<open>
  The state a run acts on: the file system, the working directory of the process, the
  lines this module printed, the warnings it issued, the state the collaborators own
  (the git repository, the metadata), and the collaborator calls made so far.
\<close>

record 'x world =
  files :: filesystem
  cwd :: location
  stdout :: "string list"
  warnings :: "string list"
  extern :: 'x
  trace :: "call list"

definition print :: "string \<Rightarrow> 'x world \<Rightarrow> 'x world" where
  "print s w = w\<lparr>stdout := stdout w @ [s]\<rparr>"

definition warn :: "string \<Rightarrow> 'x world \<Rightarrow> 'x world" where
  "warn s w = w\<lparr>warnings := warnings w @ [s]\<rparr>"

definition stat :: "'x world \<Rightarrow> path \<Rightarrow> lookup" where
  "stat w p = follow MAXSYMLINKS (files w) (absolute_names (cwd w) p)"

text \<open>\<^verbatim>\<open>Path.exists\<close>, \<^verbatim>\<open>Path.is_dir\<close> and \<^verbatim>\<open>Path.is_file\<close> follow links and answer
  \<^verbatim>\<open>False\<close> on a broken chain or a loop.\<close>

definition path_exists :: "'x world \<Rightarrow> path \<Rightarrow> bool" where
  "path_exists w p = (case stat w p of Found l nd \<Rightarrow> True | Missing l \<Rightarrow> False | TooManyLinks \<Rightarrow> False)"

definition is_dir :: "'x world \<Rightarrow> path \<Rightarrow> bool" where
  "is_dir w p = (case stat w p of Found l nd \<Rightarrow> nd = Dir | Missing l \<Rightarrow> False | TooManyLinks \<Rightarrow> False)"

definition is_file :: "'x world \<Rightarrow> path \<Rightarrow> bool" where
  "is_file w p =
     (case stat w p of
        Found l nd \<Rightarrow> (case nd of File c \<Rightarrow> True | Dir \<Rightarrow> False | Symlink t \<Rightarrow> False)
      | Missing l \<Rightarrow> False
      | TooManyLinks \<Rightarrow> False)"

text \<open>\<^verbatim>\<open>Path.is_symlink\<close> looks at the entry itself.\<close>

definition is_symlink :: "'x world \<Rightarrow> path \<Rightarrow> bool" where
  "is_symlink w p =
     (case files w (absolute_names (cwd w) p) of
        None \<Rightarrow> False
      | Some nd \<Rightarrow> (case nd of Symlink t \<Rightarrow> True | File c \<Rightarrow> False | Dir \<Rightarrow> False))"

text \<open>
  The source writes \<^verbatim>\<open>sym_path.is_symlink\<close> and \<^verbatim>\<open>config_path.is_file\<close> without calling
  them. Such an expression is the bound method object (here the suspended call), which
  is true in a condition whatever the call would answer.
\<close>

definition bound_method_truth :: "(unit \<Rightarrow> bool) \<Rightarrow> bool" where
  "bound_method_truth m = True"

text \<open>\<^verbatim>\<open>Path.resolve()\<close>, not strict: the absolute location at the end of the links.\<close>

definition resolve :: "'x world \<Rightarrow> path \<Rightarrow> path" where
  "resolve w p =
     (case stat w p of
        Found l nd \<Rightarrow> PosixPath True l
      | Missing l \<Rightarrow> PosixPath True l
      | TooManyLinks \<Rightarrow> PosixPath True (absolute_names (cwd w) p))"

text \<open>\<^verbatim>\<open>Path.unlink()\<close> removes a file or a link (the link itself) and refuses a
  directory.\<close>

definition unlink :: "path \<Rightarrow> 'x world \<Rightarrow> (error + unit) \<times> 'x world" where
  "unlink p w =
     (let l = absolute_names (cwd w) p
      in case files w l of
           None \<Rightarrow> (Inl (FileNotFoundError (path_str p)), w)
         | Some nd \<Rightarrow>
             (case nd of
                Dir \<Rightarrow> (Inl (IsADirectoryError (path_str p)), w)
              | File c \<Rightarrow> (Inr (), w\<lparr>files := (files w)(l := None)\<rparr>)
              | Symlink t \<Rightarrow> (Inr (), w\<lparr>files := (files w)(l := None)\<rparr>)))"

text \<open>\<^verbatim>\<open>Path.symlink_to(target)\<close> refuses a name that is taken, also by a broken link.\<close>

definition symlink_to :: "path \<Rightarrow> path \<Rightarrow> 'x world \<Rightarrow> (error + unit) \<times> 'x world" where
  "symlink_to p target w =
     (let l = absolute_names (cwd w) p
      in case files w l of
           None \<Rightarrow> (Inr (), w\<lparr>files := (files w)(l \<mapsto> Symlink target)\<rparr>)
         | Some nd \<Rightarrow> (Inl (FileExistsError (path_str p)), w))"

section \<open>The symlink switcher\<close>

text \<open>
  \<^verbatim>\<open>switch_symlink\<close> (lines 150 to 166). The removal phase runs when
  \<^verbatim>\<open>sym_path.exists() and sym_path.is_symlink\<close> holds; the second operand is the method
  itself. The creation phase runs when \<^verbatim>\<open>dir_path.exists()\<close> holds, on the file system
  that the removal phase left. An exception of \<^verbatim>\<open>unlink\<close> or \<^verbatim>\<open>symlink_to\<close> ends the call.
\<close>

definition switch_symlink ::
  "path \<Rightarrow> path \<Rightarrow> string \<Rightarrow> string \<Rightarrow> 'x world \<Rightarrow> (error + unit) \<times> 'x world" where
  "switch_symlink lab_dir_path control_path experiment_name sym_dir w =
     (let dir_path = joinpath lab_dir_path experiment_name;
          sym_path = joinpath control_path sym_dir;
          removed =
            (if path_exists w sym_path \<and> bound_method_truth (\<lambda>u. is_symlink w sym_path)
             then (let previous_path = resolve w sym_path
                   in case unlink sym_path w of
                        (Inl e, w1) \<Rightarrow> (Inl e, w1)
                      | (Inr u, w1) \<Rightarrow>
                          (Inr (), print (''Removed '' @ sym_dir @ '' symlink to ''
                                          @ path_str previous_path) w1))
             else (Inr (), w))
      in case removed of
           (Inl e, w1) \<Rightarrow> (Inl e, w1)
         | (Inr u, w1) \<Rightarrow>
             (if path_exists w1 dir_path
              then (case symlink_to sym_path dir_path w1 of
                      (Inl e, w2) \<Rightarrow> (Inl e, w2)
                    | (Inr u2, w2) \<Rightarrow>
                        (Inr (), print (''Added '' @ sym_dir @ '' symlink to ''
                                        @ path_str dir_path) w2))
              else (Inr (), w1)))"

section \<open>Sequencing with exceptions\<close>

text \<open>
  A statement either returns a value or raises, and leaves a state behind in both cases.
  \<open>and_then\<close> runs the rest of a block only when the statement before it returned;
  \<open>try_finally\<close> runs the \<^verbatim>\<open>finally\<close> clause on both exits, and an exception raised by
  the clause replaces the outcome of the body.
\<close>

definition and_then ::
  "(error + 'a) \<times> 'w \<Rightarrow> ('a \<Rightarrow> 'w \<Rightarrow> (error + 'b) \<times> 'w) \<Rightarrow> (error + 'b) \<times> 'w" where
  "and_then m k = (case m of (Inl e, w) \<Rightarrow> (Inl e, w) | (Inr a, w) \<Rightarrow> k a w)"

definition try_finally ::
  "(error + 'a) \<times> 'w \<Rightarrow> ('w \<Rightarrow> (error + unit) \<times> 'w) \<Rightarrow> (error + 'a) \<times> 'w" where
  "try_finally body cleanup =
     (case body of
        (r, w) \<Rightarrow> (case cleanup w of (Inl e, w') \<Rightarrow> (Inl e, w') | (Inr u, w') \<Rightarrow> (r, w')))"

text \<open>\<^verbatim>\<open>os.getcwd\<close> and \<^verbatim>\<open>os.chdir\<close>.\<close>

definition getcwd :: "'x world \<Rightarrow> path" where
  "getcwd w = PosixPath True (cwd w)"

definition chdir :: "path \<Rightarrow> 'x world \<Rightarrow> (error + unit) \<times> 'x world" where
  "chdir p w =
     (case stat w p of
        Found l nd \<Rightarrow>
          (case nd of
             Dir \<Rightarrow> (Inr (), w\<lparr>cwd := l\<rparr>)
           | File c \<Rightarrow> (Inl (NotADirectoryError (path_str p)), w)
           | Symlink t \<Rightarrow> (Inl (NotADirectoryError (path_str p)), w))
      | Missing l \<Rightarrow> (Inl (FileNotFoundError (path_str p)), w)
      | TooManyLinks \<Rightarrow> (Inl (OSError (path_str p)), w))"

text \<open>Reading and writing a file through a path, as \<^verbatim>\<open>open\<close> does: links are followed,
  and writing creates the file where the chain of links ends.\<close>

definition read_file :: "path \<Rightarrow> 'x world \<Rightarrow> (error + string) \<times> 'x world" where
  "read_file p w =
     (case stat w p of
        Found l nd \<Rightarrow>
          (case nd of
             File c \<Rightarrow> (Inr c, w)
           | Dir \<Rightarrow> (Inl (IsADirectoryError (path_str p)), w)
           | Symlink t \<Rightarrow> (Inl (OSError (path_str p)), w))
      | Missing l \<Rightarrow> (Inl (FileNotFoundError (path_str p)), w)
      | TooManyLinks \<Rightarrow> (Inl (OSError (path_str p)), w))"

definition write_file :: "path \<Rightarrow> string \<Rightarrow> 'x world \<Rightarrow> (error + unit) \<times> 'x world" where
  "write_file p c w =
     (case stat w p of
        Found l nd \<Rightarrow>
          (case nd of
             File c0 \<Rightarrow> (Inr (), w\<lparr>files := (files w)(l \<mapsto> File c)\<rparr>)
           | Dir \<Rightarrow> (Inl (IsADirectoryError (path_str p)), w)
           | Symlink t \<Rightarrow> (Inl (OSError (path_str p)), w))
      | Missing l \<Rightarrow> (Inr (), w\<lparr>files := (files w)(l \<mapsto> File c)\<rparr>)
      | TooManyLinks \<Rightarrow> (Inl (OSError (path_str p)), w))"

section \<open>The collaborators\<close>

text \<open>
  \<^verbatim>\<open>payu.fsops\<close>, \<^verbatim>\<open>payu.git_utils\<close>, \<^verbatim>\<open>payu.laboratory\<close> and \<^verbatim>\<open>payu.metadata\<close> are
  imported by \<^verbatim>\<open>payu/branch.py\<close>; \<^verbatim>\<open>git\<close> and \<^verbatim>\<open>ruamel.yaml\<close> are libraries. They are
  parameters of the model. A collaborator reads the working directory, acts on the
  file system and on the state it owns, and returns or raises; it cannot change the
  working directory, and what it prints is not part of \<open>stdout\<close>.
\<close>

type_synonym ('x, 'a) collaborator =
  "location \<Rightarrow> filesystem \<times> 'x \<Rightarrow> (error + 'a) \<times> (filesystem \<times> 'x)"

definition call_collaborator ::
  "call \<Rightarrow> ('x, 'a) collaborator \<Rightarrow> 'x world \<Rightarrow> (error + 'a) \<times> 'x world" where
  "call_collaborator c f w =
     (case f (cwd w) (files w, extern w) of
        (r, (g, x)) \<Rightarrow> (r, w\<lparr>files := g, extern := x, trace := trace w @ [c]\<rparr>))"

text \<open>A file of a commit tree, and a branch (\<^verbatim>\<open>git.Head\<close>, or a remote reference) with the
  files at the top of the tree of its commit. Two references are equal in \<^verbatim>\<open>git\<close> when
  their reference paths are.\<close>

datatype blob = Blob (blob_name: string) (blob_data: string)

datatype head = Head (ref_path: string) (head_name: string) (tree_blobs: "blob list")

definition head_ne :: "head \<Rightarrow> head \<Rightarrow> bool" where
  "head_ne a b = (ref_path a \<noteq> ref_path b)"

record laboratory =
  archive_path :: string
  work_path :: string

record ('x, 'm, 'r, 'd) collaborators =
  DEFAULT_CONFIG_FNAME :: string
  UUID_FIELD :: string
  read_config :: "path option \<Rightarrow> ('x, string \<Rightarrow> string option) collaborator"
  git_checkout_branch :: "path \<Rightarrow> string \<Rightarrow> bool \<Rightarrow> string option \<Rightarrow> ('x, unit) collaborator"
  git_clone :: "string \<Rightarrow> path \<Rightarrow> string option \<Rightarrow> ('x, unit) collaborator"
  get_git_branch :: "path \<Rightarrow> ('x, string) collaborator"
  get_git_repository :: "path \<Rightarrow> ('x, 'r) collaborator"
  active_branch :: "'r \<Rightarrow> filesystem \<times> 'x \<Rightarrow> error + head"
  remote_branches_dict :: "'r \<Rightarrow> ('x, (string \<times> head) list) collaborator"
  local_branches_dict :: "'r \<Rightarrow> ('x, (string \<times> head) list) collaborator"
  Laboratory :: "string option \<Rightarrow> path \<Rightarrow> path option \<Rightarrow> ('x, laboratory) collaborator"
  Metadata :: "path \<Rightarrow> string \<Rightarrow> path \<Rightarrow> ('x, 'm) collaborator"
  metadata_setup :: "'m \<Rightarrow> bool \<Rightarrow> bool \<Rightarrow> ('x, 'm) collaborator"
  experiment_name :: "'m \<Rightarrow> string"
  yaml_load :: "string \<Rightarrow> error + 'd"
  yaml_setitem :: "'d \<Rightarrow> string \<Rightarrow> string \<Rightarrow> error + 'd"
  yaml_get :: "'d \<Rightarrow> string \<Rightarrow> error + string option"
  yaml_dump :: "'d \<Rightarrow> string"

section \<open>The configuration locator and the restart injector\<close>

definition newline :: string where
  "newline = [CHR 0x0A]"

definition NO_CONFIG_FOUND_MESSAGE :: string where
  "NO_CONFIG_FOUND_MESSAGE = intercalate newline
     [''No configuration file found on this branch.'',
      ''Skipping adding new metadata file and creating archive/work symlinks.'',
      [],
      ''To try find a branch that has config file, you can:'',
      ''    - Display local branches by running:'',
      ''        payu branch'',
      ''    - Or display remote branches by running:'',
      ''        payu branch --remote'',
      [],
      ''To checkout an existing branch, run:'',
      ''    payu checkout BRANCH_NAME'',
      ''Where BRANCH_NAME is the name of the branch'']"

definition quote :: string where
  "quote = [CHR 0x27]"

text \<open>
  \<^verbatim>\<open>add_restart_to_config\<close> (lines 39 to 62). Here \<^verbatim>\<open>is_dir()\<close> is called. The YAML
  library reads the file at \<^verbatim>\<open>config_path\<close>, the key \<^verbatim>\<open>restart\<close> is set to
  \<^verbatim>\<open>str(restart_path)\<close>, and the library writes the document back to the path.
\<close>

definition add_restart_to_config ::
  "('x, 'm, 'r, 'd) collaborators \<Rightarrow> path \<Rightarrow> path \<Rightarrow> 'x world \<Rightarrow> (error + unit) \<times> 'x world" where
  "add_restart_to_config ext restart_path config_path w =
     (if \<not> path_exists w restart_path \<or> \<not> is_dir w restart_path
      then (Inr (), warn (''Given restart directory '' @ path_str restart_path
                          @ '' does not exist. Skipping adding '' @ quote @ ''restart: ''
                          @ path_str restart_path @ quote @ '' to config file'') w)
      else and_then (read_file config_path w) (\<lambda>text w1.
           and_then (yaml_load ext text, w1) (\<lambda>config w2.
           and_then (yaml_setitem ext config ''restart'' (path_str restart_path), w2) (\<lambda>config w3.
           and_then (write_file config_path (yaml_dump ext config) w3) (\<lambda>u w4.
             (Inr (), print (''Added '' @ quote @ ''restart: '' @ path_str restart_path
                             @ quote @ '' to configuration file: '' @ path_name config_path)
                        w4))))))"

text \<open>
  \<^verbatim>\<open>get_control_path\<close> (lines 65 to 69): \<^verbatim>\<open>Path(config.get('control_path'))\<close>, a
  \<^verbatim>\<open>TypeError\<close> when the key is absent.
\<close>

definition get_control_path ::
  "('x, 'm, 'r, 'd) collaborators \<Rightarrow> path option \<Rightarrow> 'x world \<Rightarrow> (error + path) \<times> 'x world" where
  "get_control_path ext config_path w =
     and_then (call_collaborator (Call_read_config config_path) (read_config ext config_path) w)
       (\<lambda>config w1.
          (case config ''control_path'' of
             None \<Rightarrow> (Inl TypeError, w1)
           | Some s \<Rightarrow> (Inr (Path s), w1)))"

text \<open>
  \<^verbatim>\<open>check_config_path\<close> (lines 72 to 82). The default is the relative path of the
  default file name (the result of \<^verbatim>\<open>config_path.resolve()\<close> on line 76 is dropped). The
  test is \<^verbatim>\<open>not config_path.exists() or not config_path.is_file\<close>; the second operand is
  the negation of the method itself.
\<close>

definition check_config_path ::
  "('x, 'm, 'r, 'd) collaborators \<Rightarrow> path option \<Rightarrow> 'x world \<Rightarrow> (error + path) \<times> 'x world" where
  "check_config_path ext config_path w =
     (let config_path =
            (case config_path of None \<Rightarrow> Path (DEFAULT_CONFIG_FNAME ext) | Some p \<Rightarrow> p)
      in if \<not> path_exists w config_path \<or> \<not> bound_method_truth (\<lambda>u. is_file w config_path)
         then (Inl (FileNotFoundError (''Configuration file '' @ path_str config_path
                                       @ '' not found'')),
               print NO_CONFIG_FOUND_MESSAGE w)
         else (Inr config_path, w))"

section \<open>Checkout and clone\<close>

text \<open>
  \<^verbatim>\<open>checkout_branch\<close> (lines 85 to 147), step by step: the control path, the git checkout,
  the check of the configuration file, \<^verbatim>\<open>Laboratory\<close>, \<^verbatim>\<open>Metadata\<close>, the setup of the
  metadata, the restart (\<^verbatim>\<open>if restart_path\<close> holds for every path object), the two links.
\<close>

definition checkout_branch ::
  "('x, 'm, 'r, 'd) collaborators \<Rightarrow> string \<Rightarrow> bool \<Rightarrow> bool \<Rightarrow> bool \<Rightarrow> string option \<Rightarrow>
   path option \<Rightarrow> path option \<Rightarrow> path option \<Rightarrow> string option \<Rightarrow> path option \<Rightarrow>
   'x world \<Rightarrow> (error + unit) \<times> 'x world" where
  "checkout_branch ext branch_name is_new_branch is_new_experiment keep_uuid start_point
     restart_path config_path control_path model_type lab_path w =
     and_then (case control_path of
                 None \<Rightarrow> get_control_path ext config_path w
               | Some p \<Rightarrow> (Inr p, w)) (\<lambda>control_path w1.
     and_then (call_collaborator
                 (Call_git_checkout_branch control_path branch_name is_new_branch start_point)
                 (git_checkout_branch ext control_path branch_name is_new_branch start_point)
                 w1) (\<lambda>u w2.
     and_then (check_config_path ext config_path w2) (\<lambda>config_path w3.
     and_then (call_collaborator (Call_Laboratory model_type config_path lab_path)
                 (Laboratory ext model_type config_path lab_path) w3) (\<lambda>lab w4.
     and_then (call_collaborator
                 (Call_Metadata (Path (archive_path lab)) branch_name config_path)
                 (Metadata ext (Path (archive_path lab)) branch_name config_path)
                 w4) (\<lambda>metadata w5.
     (let is_new_experiment = (is_new_experiment \<or> is_new_branch) in
     and_then (call_collaborator (Call_metadata_setup keep_uuid is_new_experiment)
                 (metadata_setup ext metadata keep_uuid is_new_experiment) w5) (\<lambda>metadata w6.
     and_then (case restart_path of
                 None \<Rightarrow> (Inr (), w6)
               | Some rp \<Rightarrow> add_restart_to_config ext rp config_path w6) (\<lambda>u w7.
     (let experiment = experiment_name ext metadata in
     and_then (switch_symlink (Path (archive_path lab)) control_path experiment ''archive'' w7)
       (\<lambda>u w8.
          switch_symlink (Path (work_path lab)) control_path experiment ''work'' w8))))))))))"

text \<open>
  \<^verbatim>\<open>clone\<close> (lines 169 to 245): \<^verbatim>\<open>git_clone\<close>, \<^verbatim>\<open>directory.resolve()\<close>, \<^verbatim>\<open>os.getcwd()\<close>,
  then the \<^verbatim>\<open>try\<close> block with \<^verbatim>\<open>os.chdir(owd)\<close> as its \<^verbatim>\<open>finally\<close> clause, then the closing
  line.
\<close>

definition clone ::
  "('x, 'm, 'r, 'd) collaborators \<Rightarrow> string \<Rightarrow> path \<Rightarrow> string option \<Rightarrow> string option \<Rightarrow> bool \<Rightarrow>
   string option \<Rightarrow> path option \<Rightarrow> path option \<Rightarrow> path option \<Rightarrow>
   'x world \<Rightarrow> (error + unit) \<times> 'x world" where
  "clone ext repository directory branch new_branch_name keep_uuid model_type config_path
     lab_path restart_path w =
     and_then (call_collaborator (Call_git_clone repository directory branch)
                 (git_clone ext repository directory branch) w) (\<lambda>u w1.
     (let control_path = resolve w1 directory;
          owd = getcwd w1
      in and_then
           (try_finally
              (and_then (chdir control_path w1) (\<lambda>u w2.
                 (case new_branch_name of
                    Some new_branch \<Rightarrow>
                      checkout_branch ext new_branch True False keep_uuid None restart_path
                        config_path (Some control_path) model_type lab_path w2
                  | None \<Rightarrow>
                      and_then (case branch of
                                  None \<Rightarrow> call_collaborator (Call_get_git_branch control_path)
                                            (get_git_branch ext control_path) w2
                                | Some b \<Rightarrow> (Inr b, w2)) (\<lambda>branch w3.
                        checkout_branch ext branch False True keep_uuid None restart_path
                          config_path (Some control_path) model_type lab_path w3))))
              (chdir owd))
           (\<lambda>u w4. (Inr (), print (''To change directory to control directory run:'' @ newline
                                    @ ''  cd '' @ path_str directory) w4))))"

section \<open>The branch inspector\<close>

text \<open>\<^verbatim>\<open>str.splitlines\<close>, for the line boundaries of ASCII.\<close>

definition line_boundary :: "char \<Rightarrow> bool" where
  "line_boundary c =
     (c \<in> set [CHR 0x0A, CHR 0x0B, CHR 0x0C, CHR 0x0D, CHR 0x1C, CHR 0x1D, CHR 0x1E])"

fun splitlines_from :: "string \<Rightarrow> string \<Rightarrow> string list" where
  "splitlines_from line [] = (if line = [] then [] else [line])"
| "splitlines_from line [c] = (if line_boundary c then [line] else [line @ [c]])"
| "splitlines_from line (c # c' # cs) =
     (if c = CHR 0x0D \<and> c' = CHR 0x0A then line # splitlines_from [] cs
      else if line_boundary c then line # splitlines_from [] (c' # cs)
      else splitlines_from (line @ [c]) (c' # cs))"

definition splitlines :: "string \<Rightarrow> string list" where
  "splitlines s = splitlines_from [] s"

text \<open>
  \<^verbatim>\<open>print_branch_metadata\<close> (lines 248 to 289): the loop over the blobs of the tree, then
  the line or lines printed.
\<close>

fun scan_blobs :: "blob list \<Rightarrow> bool \<times> string option \<Rightarrow> bool \<times> string option" where
  "scan_blobs [] found = found"
| "scan_blobs (b # bs) (contains_config, metadata_content) =
     scan_blobs bs
       (if blob_name b = ''config.yaml'' then True else contains_config,
        if blob_name b = ''metadata.yaml'' then Some (blob_data b) else metadata_content)"

fun print_lines :: "string list \<Rightarrow> 'x world \<Rightarrow> 'x world" where
  "print_lines [] w = w"
| "print_lines (line # rest) w = print_lines rest (print (''    '' @ line) w)"

definition print_branch_metadata ::
  "('x, 'm, 'r, 'd) collaborators \<Rightarrow> head \<Rightarrow> bool \<Rightarrow> 'x world \<Rightarrow> (error + unit) \<times> 'x world" where
  "print_branch_metadata ext branch verbose w =
     (case scan_blobs (tree_blobs branch) (False, None) of
        (contains_config, metadata_content) \<Rightarrow>
          (if \<not> contains_config then (Inr (), print ''    No config file found'' w)
           else (case metadata_content of
                   None \<Rightarrow> (Inr (), print ''    No metadata file found'' w)
                 | Some content \<Rightarrow>
                     (if verbose then (Inr (), print_lines (splitlines content) w)
                      else and_then (yaml_load ext content, w) (\<lambda>metadata w1.
                           and_then (yaml_get ext metadata (UUID_FIELD ext), w1) (\<lambda>uuid w2.
                             (case uuid of
                                Some v \<Rightarrow>
                                  (Inr (), print (''    '' @ UUID_FIELD ext @ '': '' @ v) w2)
                              | None \<Rightarrow>
                                  (Inr (), print ''    No UUID in metadata file'' w2))))))))"

text \<open>
  \<^verbatim>\<open>list_branches\<close> (lines 292 to 321): the loop over the items of the dictionary, which
  is a list of pairs in the order of the dictionary, and the function itself.
\<close>

fun list_branches_loop ::
  "('x, 'm, 'r, 'd) collaborators \<Rightarrow> string \<Rightarrow> head \<Rightarrow> bool \<Rightarrow> (string \<times> head) list \<Rightarrow>
   'x world \<Rightarrow> (error + unit) \<times> 'x world" where
  "list_branches_loop ext label current_branch verbose [] w = (Inr (), w)"
| "list_branches_loop ext label current_branch verbose ((branch_name, branch) # rest) w =
     (if head_ne branch current_branch
      then and_then (print_branch_metadata ext branch verbose
                       (print (label @ '': '' @ branch_name) w))
             (\<lambda>u w1. list_branches_loop ext label current_branch verbose rest w1)
      else list_branches_loop ext label current_branch verbose rest w)"

definition list_branches ::
  "('x, 'm, 'r, 'd) collaborators \<Rightarrow> path option \<Rightarrow> bool \<Rightarrow> bool \<Rightarrow> 'x world \<Rightarrow>
   (error + unit) \<times> 'x world" where
  "list_branches ext config_path verbose remote w =
     and_then (get_control_path ext config_path w) (\<lambda>control_path w1.
     and_then (call_collaborator (Call_get_git_repository control_path)
                 (get_git_repository ext control_path) w1) (\<lambda>repo w2.
     and_then (active_branch ext repo (files w2, extern w2), w2) (\<lambda>current_branch w3.
     and_then (print_branch_metadata ext current_branch verbose
                 (print (''* Current Branch: '' @ head_name current_branch) w3)) (\<lambda>u w4.
     and_then (if remote
               then and_then (call_collaborator Call_remote_branches_dict
                                (remote_branches_dict ext repo) w4)
                      (\<lambda>branches w5. (Inr (branches, ''Remote Branch''), w5))
               else and_then (call_collaborator Call_local_branches_dict
                                (local_branches_dict ext repo) w4)
                      (\<lambda>branches w5. (Inr (branches, ''Branch''), w5)))
       (\<lambda>(branches, label) w6.
          list_branches_loop ext label current_branch verbose branches w6)))))"

section \<open>Notions used in the statements\<close>

text \<open>\<open>reaches f l\<close>: the chain of links that starts at \<open>l\<close> ends in a file or a
  directory; \<^verbatim>\<open>Path.exists\<close> on the file system alone.\<close>

definition reaches :: "filesystem \<Rightarrow> location \<Rightarrow> bool" where
  "reaches f l =
     (case follow MAXSYMLINKS f l of
        Found r nd \<Rightarrow> True
      | Missing r \<Rightarrow> False
      | TooManyLinks \<Rightarrow> False)"

text \<open>The file system that a run of \<open>switch_symlink\<close> leaves, for the link at \<open>s\<close> and the
  experiment directory at \<open>d\<close>, written \<open>t\<close> in the link.\<close>

definition switched :: "filesystem \<Rightarrow> location \<Rightarrow> location \<Rightarrow> path \<Rightarrow> filesystem" where
  "switched f s d t =
     (if reaches f s
      then (if f s = Some Dir then f
            else if reaches (f(s := None)) d then f(s \<mapsto> Symlink t) else f(s := None))
      else if reaches f d \<and> f s = None then f(s \<mapsto> Symlink t) else f)"

text \<open>The collaborator calls that a run adds to the record, and the calls of
  \<^verbatim>\<open>metadata.setup\<close> among them.\<close>

definition new_calls :: "'x world \<Rightarrow> 'x world \<Rightarrow> call list" where
  "new_calls w w' = drop (length (trace w)) (trace w')"

fun is_metadata_setup :: "call \<Rightarrow> bool" where
  "is_metadata_setup (Call_metadata_setup keep_uuid is_new_experiment) = True"
| "is_metadata_setup c = False"

text \<open>A collaborator keeps the directory at \<open>d\<close> when it never removes or replaces it;
  \<open>collaborators_keep_directory\<close> says so of every collaborator that \<open>clone\<close> reaches.\<close>

definition keeps_directory :: "location \<Rightarrow> ('x, 'a) collaborator \<Rightarrow> bool" where
  "keeps_directory d f = (\<forall>c s. fst s d = Some Dir \<longrightarrow> fst (snd (f c s)) d = Some Dir)"

definition collaborators_keep_directory ::
  "('x, 'm, 'r, 'd) collaborators \<Rightarrow> location \<Rightarrow> bool" where
  "collaborators_keep_directory ext d =
     ((\<forall>repository directory branch. keeps_directory d (git_clone ext repository directory branch))
      \<and> (\<forall>p. keeps_directory d (get_git_branch ext p))
      \<and> (\<forall>p b n s. keeps_directory d (git_checkout_branch ext p b n s))
      \<and> (\<forall>m p l. keeps_directory d (Laboratory ext m p l))
      \<and> (\<forall>a b p. keeps_directory d (Metadata ext a b p))
      \<and> (\<forall>m k n. keeps_directory d (metadata_setup ext m k n)))"

text \<open>
  The listing of the branches in the words of the specification: whether a committed
  tree has a file of a given name, the content of that file, the UUID field of a metadata
  text, the summary of one branch (\<open>claimed_summary\<close> as claim C9 words it, \<open>summary\<close> with
  the verbose mode of section 4.6), and the lines of a whole listing.
\<close>

definition has_blob :: "string \<Rightarrow> head \<Rightarrow> bool" where
  "has_blob n b = (n \<in> set (map blob_name (tree_blobs b)))"

definition blob_text :: "string \<Rightarrow> head \<Rightarrow> string option" where
  "blob_text n b =
     (case filter (\<lambda>x. blob_name x = n) (tree_blobs b) of
        [] \<Rightarrow> None
      | x # xs \<Rightarrow> Some (blob_data (last (x # xs))))"

definition uuid_of :: "('x, 'm, 'r, 'd) collaborators \<Rightarrow> string \<Rightarrow> string option" where
  "uuid_of ext content =
     (case yaml_load ext content of
        Inl e \<Rightarrow> None
      | Inr metadata \<Rightarrow>
          (case yaml_get ext metadata (UUID_FIELD ext) of Inl e \<Rightarrow> None | Inr v \<Rightarrow> v))"

definition claimed_summary :: "('x, 'm, 'r, 'd) collaborators \<Rightarrow> head \<Rightarrow> string list" where
  "claimed_summary ext b =
     (if \<not> has_blob ''config.yaml'' b then [''    No config file found'']
      else (case blob_text ''metadata.yaml'' b of
              None \<Rightarrow> [''    No metadata file found'']
            | Some content \<Rightarrow>
                (case uuid_of ext content of
                   Some v \<Rightarrow> [''    '' @ UUID_FIELD ext @ '': '' @ v]
                 | None \<Rightarrow> [''    No UUID in metadata file''])))"

definition summary :: "('x, 'm, 'r, 'd) collaborators \<Rightarrow> bool \<Rightarrow> head \<Rightarrow> string list" where
  "summary ext verbose b =
     (if \<not> has_blob ''config.yaml'' b then [''    No config file found'']
      else (case blob_text ''metadata.yaml'' b of
              None \<Rightarrow> [''    No metadata file found'']
            | Some content \<Rightarrow>
                (if verbose then map (\<lambda>line. ''    '' @ line) (splitlines content)
                 else (case uuid_of ext content of
                         Some v \<Rightarrow> [''    '' @ UUID_FIELD ext @ '': '' @ v]
                       | None \<Rightarrow> [''    No UUID in metadata file'']))))"

definition listing ::
  "(head \<Rightarrow> string list) \<Rightarrow> string \<Rightarrow> head \<Rightarrow> (string \<times> head) list \<Rightarrow> string list" where
  "listing summ label current branches =
     (''* Current Branch: '' @ head_name current) # summ current
     @ concat (map (\<lambda>(n, b). (label @ '': '' @ n) # summ b)
                 (filter (\<lambda>(n, b). ref_path b \<noteq> ref_path current) branches))"

section \<open>Example runs\<close>

text \<open>A control directory whose \<^verbatim>\<open>archive\<close> link points at an experiment directory that is
  gone, in a laboratory that has no directory for the experiment \<^verbatim>\<open>expt\<close>.\<close>

definition dangling_world :: "unit world" where
  "dangling_world =
     \<lparr>files = [[''control''] \<mapsto> Dir,
               [''control'', ''archive''] \<mapsto> Symlink (Path ''/lab/archive/old''),
               [''lab'', ''archive''] \<mapsto> Dir],
      cwd = [''control''], stdout = [], warnings = [], extern = (), trace = []\<rparr>"

text \<open>The same, in a laboratory that has the directory of \<^verbatim>\<open>expt\<close>.\<close>

definition dangling_world_with_target :: "unit world" where
  "dangling_world_with_target =
     dangling_world\<lparr>files := (files dangling_world)([''lab'', ''archive'', ''expt''] \<mapsto> Dir)\<rparr>"

text \<open>A control directory where a regular file has the name \<^verbatim>\<open>work\<close>.\<close>

definition file_world :: "unit world" where
  "file_world =
     \<lparr>files = [[''control''] \<mapsto> Dir,
               [''control'', ''work''] \<mapsto> File ''notes'',
               [''lab'', ''work''] \<mapsto> Dir,
               [''lab'', ''work'', ''expt''] \<mapsto> Dir],
      cwd = [''control''], stdout = [], warnings = [], extern = (), trace = []\<rparr>"

text \<open>
  Collaborators for the example runs. The state they own is the name of the active
  branch. Checking out a branch puts \<^verbatim>\<open>config.yaml\<close> in the control directory when the
  tree of the branch has the file and removes it when the tree has none (a branch that is
  not among the example branches is a new one and has the file); the tree of the branch
  \<^verbatim>\<open>control\<close> has none. The metadata object is the experiment name, which is the branch
  name. The YAML documents are the flat mappings, one \<^verbatim>\<open>key: value\<close> to a line.
\<close>

definition example_yaml_load :: "string \<Rightarrow> error + (string \<times> string) list" where
  "example_yaml_load s =
     Inr (map (\<lambda>l. (takeWhile (\<lambda>c. c \<noteq> CHR '':'') l, drop 2 (dropWhile (\<lambda>c. c \<noteq> CHR '':'') l)))
            (splitlines s))"

definition example_yaml_setitem ::
  "(string \<times> string) list \<Rightarrow> string \<Rightarrow> string \<Rightarrow> error + (string \<times> string) list" where
  "example_yaml_setitem d k v =
     Inr (if k \<in> set (map fst d) then map (\<lambda>(k', v'). if k' = k then (k', v) else (k', v')) d
          else d @ [(k, v)])"

definition example_yaml_dump :: "(string \<times> string) list \<Rightarrow> string" where
  "example_yaml_dump d = intercalate newline (map (\<lambda>(k, v). k @ '': '' @ v) d)"

definition main_head :: head where
  "main_head = Head ''refs/heads/main'' ''main''
     [Blob ''config.yaml'' ''model: test'', Blob ''metadata.yaml'' ''experiment_uuid: abc-000'']"

definition expt1_head :: head where
  "expt1_head = Head ''refs/heads/expt1'' ''expt1''
     [Blob ''config.yaml'' ''model: test'', Blob ''metadata.yaml'' ''experiment_uuid: abc-123'']"

definition old_head :: head where
  "old_head = Head ''refs/heads/old'' ''old''
     [Blob ''config.yaml'' ''model: test'', Blob ''metadata.yaml'' ''created: 2024'']"

definition control_head :: head where
  "control_head = Head ''refs/heads/control'' ''control'' [Blob ''README.md'' ''notes'']"

definition example_branches :: "(string \<times> head) list" where
  "example_branches =
     [(''main'', main_head), (''expt1'', expt1_head), (''old'', old_head),
      (''control'', control_head)]"

definition example_ext :: "(string, string, unit, (string \<times> string) list) collaborators" where
  "example_ext =
     \<lparr>DEFAULT_CONFIG_FNAME = ''config.yaml'',
      UUID_FIELD = ''experiment_uuid'',
      read_config = (\<lambda>p c s. (Inr [''control_path'' \<mapsto> ''/control''], s)),
      git_checkout_branch =
        (\<lambda>p b n sp c s.
           (Inr (),
            (case map_of example_branches b of
               None \<Rightarrow> (fst s)(names p @ [''config.yaml''] \<mapsto> File ''model: test'')
             | Some h \<Rightarrow>
                 (if has_blob ''config.yaml'' h
                  then (fst s)(names p @ [''config.yaml''] \<mapsto> File ''model: test'')
                  else (fst s)(names p @ [''config.yaml''] := None)),
             b))),
      git_clone =
        (\<lambda>repository directory b c s.
           (Inr (),
            ((fst s)(absolute_names c directory \<mapsto> Dir,
                     absolute_names c directory @ [''config.yaml''] \<mapsto> File ''model: test''),
             (case b of None \<Rightarrow> ''main'' | Some b' \<Rightarrow> b')))),
      get_git_branch = (\<lambda>p c s. (Inr (snd s), s)),
      get_git_repository = (\<lambda>p c s. (Inr (), s)),
      active_branch = (\<lambda>r s. Inr main_head),
      remote_branches_dict =
        (\<lambda>r c s. (Inr [(''main'', Head ''refs/remotes/origin/main'' ''origin/main''
                                    (tree_blobs main_head))], s)),
      local_branches_dict = (\<lambda>r c s. (Inr example_branches, s)),
      Laboratory =
        (\<lambda>m p l c s. (Inr \<lparr>archive_path = ''/lab/archive'', work_path = ''/lab/work''\<rparr>, s)),
      Metadata = (\<lambda>a b p c s. (Inr b, s)),
      metadata_setup = (\<lambda>m k n c s. (Inr m, s)),
      experiment_name = (\<lambda>m. m),
      yaml_load = example_yaml_load,
      yaml_setitem = example_yaml_setitem,
      yaml_get = (\<lambda>d k. Inr (map_of d k)),
      yaml_dump = example_yaml_dump\<rparr>"

text \<open>A control directory on the branch \<^verbatim>\<open>main\<close>, a laboratory with the archive of
  \<^verbatim>\<open>expt1\<close>, a restart directory, and the home directory the process could start in.\<close>

definition example_world :: "string world" where
  "example_world =
     \<lparr>files = [[''home''] \<mapsto> Dir,
               [''control''] \<mapsto> Dir,
               [''control'', ''config.yaml''] \<mapsto> File ''model: test'',
               [''lab'', ''archive''] \<mapsto> Dir,
               [''lab'', ''archive'', ''expt1''] \<mapsto> Dir,
               [''lab'', ''work''] \<mapsto> Dir,
               [''restarts'', ''r1''] \<mapsto> Dir],
      cwd = [''control''], stdout = [], warnings = [], extern = ''main'', trace = []\<rparr>"

text \<open>A control directory in which \<^verbatim>\<open>config.yaml\<close> is a directory.\<close>

definition config_dir_world :: "string world" where
  "config_dir_world =
     \<lparr>files = [[''control''] \<mapsto> Dir, [''control'', ''config.yaml''] \<mapsto> Dir],
      cwd = [''control''], stdout = [], warnings = [], extern = ''main'', trace = []\<rparr>"

text \<open>The example world, with the process started in the home directory.\<close>

definition home_world :: "string world" where
  "home_world = example_world\<lparr>cwd := [''home'']\<rparr>"

text \<open>The example world with the process in the home directory, which has a
  \<^verbatim>\<open>config.yaml\<close> of its own.\<close>

definition other_cwd_world :: "string world" where
  "other_cwd_world =
     home_world\<lparr>files := (files home_world)([''home'', ''config.yaml''] \<mapsto> File ''model: other'')\<rparr>"

text \<open>
  Collaborators that record what they are given: the state they own is the list of the
  argument pairs \<^verbatim>\<open>(keep_uuid, is_new_experiment)\<close> that \<^verbatim>\<open>metadata.setup\<close> was invoked
  with, in order. The other collaborators return and change nothing.
\<close>

definition recording_ext ::
  "((bool \<times> bool) list, string, unit, (string \<times> string) list) collaborators" where
  "recording_ext =
     \<lparr>DEFAULT_CONFIG_FNAME = ''config.yaml'',
      UUID_FIELD = ''experiment_uuid'',
      read_config = (\<lambda>p c s. (Inr [''control_path'' \<mapsto> ''/control''], s)),
      git_checkout_branch = (\<lambda>p b n sp c s. (Inr (), s)),
      git_clone = (\<lambda>repository directory b c s. (Inr (), s)),
      get_git_branch = (\<lambda>p c s. (Inr ''main'', s)),
      get_git_repository = (\<lambda>p c s. (Inr (), s)),
      active_branch = (\<lambda>r s. Inr main_head),
      remote_branches_dict = (\<lambda>r c s. (Inr [], s)),
      local_branches_dict = (\<lambda>r c s. (Inr [], s)),
      Laboratory =
        (\<lambda>m p l c s. (Inr \<lparr>archive_path = ''/lab/archive'', work_path = ''/lab/work''\<rparr>, s)),
      Metadata = (\<lambda>a b p c s. (Inr b, s)),
      metadata_setup = (\<lambda>m k n c s. (Inr m, (fst s, snd s @ [(k, n)]))),
      experiment_name = (\<lambda>m. m),
      yaml_load = example_yaml_load,
      yaml_setitem = example_yaml_setitem,
      yaml_get = (\<lambda>d k. Inr (map_of d k)),
      yaml_dump = example_yaml_dump\<rparr>"

text \<open>A control directory for the recording collaborators, with its configuration file
  and without it.\<close>

definition recording_world :: "(bool \<times> bool) list world" where
  "recording_world =
     \<lparr>files = [[''control''] \<mapsto> Dir,
               [''control'', ''config.yaml''] \<mapsto> File ''model: test'',
               [''lab'', ''archive''] \<mapsto> Dir,
               [''lab'', ''work''] \<mapsto> Dir],
      cwd = [''control''], stdout = [], warnings = [], extern = [], trace = []\<rparr>"

definition recording_world_no_config :: "(bool \<times> bool) list world" where
  "recording_world_no_config =
     recording_world\<lparr>files := (files recording_world)([''control'', ''config.yaml''] := None)\<rparr>"

section \<open>Evaluating the file system on concrete inputs\<close>

lemma follow_numeral:
  "follow (numeral k) f l =
     (case f l of
        None \<Rightarrow> Missing l
      | Some nd \<Rightarrow>
          (case nd of
             Symlink t \<Rightarrow> follow (pred_numeral k) f (absolute_names (butlast l) t)
           | File c \<Rightarrow> Found l nd
           | Dir \<Rightarrow> Found l nd))"
  by (simp add: numeral_eq_Suc)

lemmas fs_eval = Let_def path_exists_def is_dir_def stat_def MAXSYMLINKS_def Path_def
  joinpath_def absolute_names_def bound_method_truth_def follow_numeral unlink_def symlink_to_def
  print_def resolve_def path_str_def reaches_def

section \<open>Properties of the symlink switcher\<close>

lemma follow_upd_absent:
  "f s = None \<Longrightarrow> follow n f d = Found r nd \<Longrightarrow> follow n (f(s \<mapsto> x)) d = Found r nd"
proof (induction n arbitrary: d)
  case 0
  then show ?case by (cases "d = s") (auto split: option.splits node.splits)
next
  case (Suc n)
  then show ?case by (cases "d = s") (auto split: option.splits node.splits)
qed

lemma follow_File: "f l = Some (File c) \<Longrightarrow> follow n f l = Found l (File c)"
  by (cases n) simp_all

lemma follow_Dir: "f l = Some Dir \<Longrightarrow> follow n f l = Found l Dir"
  by (cases n) simp_all

lemma path_exists_reaches: "path_exists w p = reaches (files w) (absolute_names (cwd w) p)"
  by (simp add: path_exists_def stat_def reaches_def)

lemma reaches_upd_absent: "f s = None \<Longrightarrow> reaches f d \<Longrightarrow> reaches (f(s \<mapsto> x)) d"
  by (auto simp: reaches_def follow_upd_absent split: lookup.splits)

lemma follow_Found_entry: "follow n f l = Found r nd \<Longrightarrow> f l \<noteq> None"
  by (cases n) (auto split: option.splits)

lemma reaches_entry: "reaches f l \<Longrightarrow> f l \<noteq> None"
  by (auto simp: reaches_def split: lookup.splits dest: follow_Found_entry)

lemma switch_symlink_files:
  "files (snd (switch_symlink L C E k w)) =
     switched (files w) (absolute_names (cwd w) (joinpath C k))
       (absolute_names (cwd w) (joinpath L E)) (joinpath L E)"
  by (auto simp: switch_symlink_def Let_def path_exists_reaches bound_method_truth_def unlink_def
        symlink_to_def print_def switched_def dest: reaches_entry split: option.splits node.splits)

lemma switch_symlink_cwd: "cwd (snd (switch_symlink L C E k w)) = cwd w"
  by (auto simp: switch_symlink_def Let_def bound_method_truth_def unlink_def
        symlink_to_def print_def split: option.splits node.splits)

lemma switched_idem: "switched (switched f s d t) s d t = switched f s d t"
proof (cases "reaches f s")
  case True
  show ?thesis
  proof (cases "f s = Some Dir")
    case Dir: True
    with True show ?thesis by (simp add: switched_def)
  next
    case False
    let ?f1 = "f(s := None)"
    show ?thesis
    proof (cases "reaches ?f1 d")
      case d: True
      have r2: "reaches (?f1(s \<mapsto> Symlink t)) d"
        using d by (intro reaches_upd_absent) simp_all
      have eq: "switched f s d t = f(s \<mapsto> Symlink t)"
        using True False d by (simp add: switched_def)
      show ?thesis
        unfolding eq using r2 d by (auto simp: switched_def)
    next
      case d: False
      have eq: "switched f s d t = ?f1"
        using True False d by (simp add: switched_def)
      have "\<not> reaches ?f1 s" using reaches_entry[of ?f1 s] by auto
      then show ?thesis unfolding eq using d by (simp add: switched_def)
    qed
  qed
next
  case False
  show ?thesis
  proof (cases "reaches f d \<and> f s = None")
    case True
    then have eq: "switched f s d t = f(s \<mapsto> Symlink t)"
      using False by (simp add: switched_def)
    have r2: "reaches (f(s \<mapsto> Symlink t)) d"
      using True by (intro reaches_upd_absent) simp_all
    have f1: "f(s := None) = f" using True by auto
    show ?thesis unfolding eq using r2 True by (auto simp: switched_def f1)
  next
    case F2: False
    then have eq: "switched f s d t = f"
      using False by (auto simp add: switched_def)
    show ?thesis by (simp add: eq)
  qed
qed

text \<open>
  Claim C6. Calling \<open>switch_symlink\<close> twice in succession with the same arguments leaves
  the same file system as calling it once: the whole table, hence also the entry at
  \<^verbatim>\<open>control_path/kind\<close>. This holds for every starting state, also when a call raises
  (a raising call leaves the file system as the steps before the raise made it).
\<close>

theorem switch_symlink_idempotent:
  "files (snd (switch_symlink L C E k (snd (switch_symlink L C E k w)))) =
   files (snd (switch_symlink L C E k w))"
  by (simp add: switch_symlink_files switch_symlink_cwd switched_idem)

text \<open>The statement of C6 at a control directory where a regular file is named
  \<^verbatim>\<open>work\<close>: after two calls the name holds the link that one call creates.\<close>

theorem switch_symlink_idempotent_witness:
  "files (snd (switch_symlink (Path ''/lab/work'') (Path ''/control'') ''expt'' ''work''
       (snd (switch_symlink (Path ''/lab/work'') (Path ''/control'') ''expt'' ''work''
          file_world)))) [''control'', ''work''] = Some (Symlink (Path ''/lab/work/expt''))"
proof -
  have once:
    "files (snd (switch_symlink (Path ''/lab/work'') (Path ''/control'') ''expt'' ''work''
        file_world)) [''control'', ''work''] = Some (Symlink (Path ''/lab/work/expt''))"
    by (simp add: switch_symlink_def file_world_def fs_eval)
  show ?thesis
    using switch_symlink_idempotent [of "Path ''/lab/work''" "Path ''/control''" "''expt''"
        "''work''" file_world] once
    by simp
qed

text \<open>
  Claim C10. When the entry at \<^verbatim>\<open>control_path/kind\<close> is a regular file, the call returns
  normally, the removal phase unlinks the file (the condition \<^verbatim>\<open>sym_path.is_symlink\<close> is
  always true and restricts nothing), no warning and no error tells the file from a link
  (the line printed is the one of a removed symlink, naming the file itself as the
  target), and the name then holds the new link when the experiment directory exists
  and nothing otherwise.
\<close>

theorem switch_symlink_unlinks_regular_file:
  assumes "files w (absolute_names (cwd w) (joinpath C k)) = Some (File c)"
  shows "fst (switch_symlink L C E k w) = Inr ()
    \<and> files (snd (switch_symlink L C E k w)) =
        (if path_exists (w\<lparr>files := (files w)(absolute_names (cwd w) (joinpath C k) := None)\<rparr>)
              (joinpath L E)
         then (files w)(absolute_names (cwd w) (joinpath C k) \<mapsto> Symlink (joinpath L E))
         else (files w)(absolute_names (cwd w) (joinpath C k) := None))
    \<and> stdout (snd (switch_symlink L C E k w)) =
        stdout w
        @ [''Removed '' @ k @ '' symlink to ''
           @ path_str (PosixPath True (absolute_names (cwd w) (joinpath C k)))]
        @ (if path_exists (w\<lparr>files := (files w)(absolute_names (cwd w) (joinpath C k) := None)\<rparr>)
                (joinpath L E)
           then [''Added '' @ k @ '' symlink to '' @ path_str (joinpath L E)] else [])"
proof -
  have ex: "path_exists w (joinpath C k)"
    using assms by (simp add: path_exists_def stat_def follow_File)
  have res: "resolve w (joinpath C k) = PosixPath True (absolute_names (cwd w) (joinpath C k))"
    using assms by (simp add: resolve_def stat_def follow_File)
  show ?thesis
    using assms ex res
    by (simp add: switch_symlink_def Let_def bound_method_truth_def unlink_def symlink_to_def
        print_def path_exists_def stat_def)
qed

text \<open>The statement of C10 at a control directory where a regular file is named
  \<^verbatim>\<open>work\<close> and the experiment directory exists.\<close>

theorem switch_symlink_unlinks_regular_file_witness:
  "files file_world [''control'', ''work''] = Some (File ''notes'')
   \<and> fst (switch_symlink (Path ''/lab/work'') (Path ''/control'') ''expt'' ''work'' file_world)
       = Inr ()
   \<and> files (snd (switch_symlink (Path ''/lab/work'') (Path ''/control'') ''expt'' ''work''
        file_world)) [''control'', ''work''] = Some (Symlink (Path ''/lab/work/expt''))
   \<and> stdout (snd (switch_symlink (Path ''/lab/work'') (Path ''/control'') ''expt'' ''work''
        file_world))
       = [''Removed work symlink to /control/work'', ''Added work symlink to /lab/work/expt'']"
proof -
  have h: "files file_world (absolute_names (cwd file_world) (joinpath (Path ''/control'') ''work''))
             = Some (File ''notes'')"
    by (simp add: file_world_def fs_eval)
  show ?thesis
    using switch_symlink_unlinks_regular_file [OF h, of "Path ''/lab/work''" "''expt''"]
    by (simp add: file_world_def fs_eval)
qed

text \<open>
  Claim C1 at two inputs of the code. A link at \<^verbatim>\<open>control_path/archive\<close> whose target is
  gone is not seen by \<^verbatim>\<open>sym_path.exists()\<close>, which follows links. With no experiment
  directory in the laboratory the call returns and the broken link is still there, where
  the claim has it removed. With the experiment directory present the call raises
  \<^verbatim>\<open>FileExistsError\<close> from \<^verbatim>\<open>symlink_to\<close>, and the link still points at the old target.
\<close>

theorem switch_symlink_keeps_dangling_link:
  "files dangling_world [''control'', ''archive''] = Some (Symlink (Path ''/lab/archive/old''))
   \<and> files dangling_world [''lab'', ''archive'', ''old''] = None
   \<and> \<not> path_exists dangling_world (Path ''/lab/archive/expt'')
   \<and> switch_symlink (Path ''/lab/archive'') (Path ''/control'') ''expt'' ''archive''
         dangling_world = (Inr (), dangling_world)
   \<and> path_exists dangling_world_with_target (Path ''/lab/archive/expt'')
   \<and> switch_symlink (Path ''/lab/archive'') (Path ''/control'') ''expt'' ''archive''
         dangling_world_with_target
       = (Inl (FileExistsError ''/control/archive''), dangling_world_with_target)"
  by (simp add: switch_symlink_def dangling_world_def dangling_world_with_target_def fs_eval)

section \<open>Properties of the configuration locator and the restart injector\<close>

lemma and_then_Inl [simp]: "and_then (Inl e, w) k = (Inl e, w)"
  by (simp add: and_then_def)

lemma and_then_Inr [simp]: "and_then (Inr a, w) k = k a w"
  by (simp add: and_then_def)

lemmas example_eval = example_ext_def example_world_def example_yaml_load_def
  example_yaml_setitem_def example_yaml_dump_def call_collaborator_def splitlines_def
  newline_def quote_def line_boundary_def
  example_branches_def main_head_def expt1_head_def old_head_def control_head_def has_blob_def

text \<open>
  Claim C7 at an input of the code. The source tests \<^verbatim>\<open>not config_path.is_file\<close>, the
  method and not its call, so only \<^verbatim>\<open>config_path.exists()\<close> decides. Where the
  configuration path is a directory, which is not a regular file, the function returns the
  path (for the default name and for an explicit path) and prints nothing, where the claim
  has it raise.
\<close>

theorem check_config_path_accepts_directory:
  "is_dir config_dir_world (Path ''config.yaml'')
   \<and> \<not> is_file config_dir_world (Path ''config.yaml'')
   \<and> check_config_path example_ext None config_dir_world
       = (Inr (Path ''config.yaml''), config_dir_world)
   \<and> check_config_path example_ext (Some (Path ''/control/config.yaml'')) config_dir_world
       = (Inr (Path ''/control/config.yaml''), config_dir_world)"
  by (simp add: check_config_path_def config_dir_world_def is_file_def example_ext_def fs_eval)

text \<open>The run of C7 read off the theorem: no exception, and nothing printed.\<close>

theorem check_config_path_accepts_directory_witness:
  "fst (check_config_path example_ext None config_dir_world) = Inr (Path ''config.yaml'')
   \<and> stdout (snd (check_config_path example_ext None config_dir_world)) = []"
  using check_config_path_accepts_directory by (simp add: config_dir_world_def)



section \<open>Properties of the checkout\<close>

lemma and_then_cases:
  "and_then m k = (r, w') \<longleftrightarrow>
     (\<exists>e. m = (Inl e, w') \<and> r = Inl e) \<or> (\<exists>a w1. m = (Inr a, w1) \<and> k a w1 = (r, w'))"
  by (cases m; cases "fst m") (auto simp: and_then_def)

lemma call_collaborator_trace:
  "call_collaborator c f w = (r, w') \<Longrightarrow> trace w' = trace w @ [c]"
  by (auto simp: call_collaborator_def split: prod.splits)

lemma call_collaborator_cwd:
  "call_collaborator c f w = (r, w') \<Longrightarrow> cwd w' = cwd w"
  by (auto simp: call_collaborator_def split: prod.splits)

lemma call_collaborator_stdout:
  "call_collaborator c f w = (r, w') \<Longrightarrow> stdout w' = stdout w"
  by (auto simp: call_collaborator_def split: prod.splits)

lemma switch_symlink_trace:
  "switch_symlink L C E k w = (r, w') \<Longrightarrow> trace w' = trace w"
  by (auto simp: switch_symlink_def Let_def bound_method_truth_def unlink_def
        symlink_to_def print_def split: option.splits node.splits if_splits)

lemma read_file_state: "read_file p w = (r, w') \<Longrightarrow> w' = w"
  by (auto simp: read_file_def split: lookup.splits node.splits)

lemma write_file_trace: "write_file p c w = (r, w') \<Longrightarrow> trace w' = trace w"
  by (auto simp: write_file_def split: lookup.splits node.splits)

lemma add_restart_to_config_trace:
  "add_restart_to_config ext rp cp w = (r, w') \<Longrightarrow> trace w' = trace w"
  by (auto simp: add_restart_to_config_def warn_def print_def and_then_cases
        dest!: read_file_state write_file_trace split: if_splits)

lemma check_config_path_trace:
  "check_config_path ext cp w = (r, w') \<Longrightarrow> trace w' = trace w"
  by (auto simp: check_config_path_def Let_def print_def split: if_splits)

lemma get_control_path_trace:
  "get_control_path ext cp w = (r, w') \<Longrightarrow> trace w' = trace w @ [Call_read_config cp]"
  by (auto simp: get_control_path_def and_then_cases dest!: call_collaborator_trace
        split: option.splits)

text \<open>
  Claim C2, amended. When the control path is resolved, the git checkout returns, and the
  resolved configuration path (the argument or, when it is absent, the default file name
  in the working directory of the process) then does not exist, the call raises
  \<^verbatim>\<open>FileNotFoundError\<close>. The state it leaves is the state right after the git checkout
  with the remediation message printed: what the checkout did to the repository stays (the
  active branch is switched, nothing is rolled back), the record of collaborator calls
  ends with the checkout (no \<^verbatim>\<open>Laboratory\<close>, no \<^verbatim>\<open>Metadata\<close>, no setup), and the file
  system is the one the checkout left (no restart written, no link switched).
\<close>

theorem checkout_branch_missing_config:
  assumes "(case control_path of
              None \<Rightarrow> get_control_path ext config_path w
            | Some p \<Rightarrow> (Inr p, w)) = (Inr cp, w1)"
    and "call_collaborator (Call_git_checkout_branch cp branch_name is_new_branch start_point)
           (git_checkout_branch ext cp branch_name is_new_branch start_point) w1 = (Inr (), w2)"
    and "\<not> path_exists w2
            (case config_path of None \<Rightarrow> Path (DEFAULT_CONFIG_FNAME ext) | Some p \<Rightarrow> p)"
  shows "checkout_branch ext branch_name is_new_branch is_new_experiment keep_uuid start_point
           restart_path config_path control_path model_type lab_path w
         = (Inl (FileNotFoundError
                   (''Configuration file ''
                    @ path_str (case config_path of
                                  None \<Rightarrow> Path (DEFAULT_CONFIG_FNAME ext) | Some p \<Rightarrow> p)
                    @ '' not found'')),
            w2\<lparr>stdout := stdout w2 @ [NO_CONFIG_FOUND_MESSAGE]\<rparr>)
    \<and> trace w2 = trace w1 @ [Call_git_checkout_branch cp branch_name is_new_branch start_point]
    \<and> stdout w2 = stdout w1"
proof -
  have "check_config_path ext config_path w2
        = (Inl (FileNotFoundError
                  (''Configuration file ''
                   @ path_str (case config_path of
                                 None \<Rightarrow> Path (DEFAULT_CONFIG_FNAME ext) | Some p \<Rightarrow> p)
                   @ '' not found'')),
           w2\<lparr>stdout := stdout w2 @ [NO_CONFIG_FOUND_MESSAGE]\<rparr>)"
    using assms(3) by (simp add: check_config_path_def Let_def print_def)
  then show ?thesis
    using assms(1,2) call_collaborator_trace [OF assms(2)] call_collaborator_stdout [OF assms(2)]
    by (simp add: checkout_branch_def)
qed

text \<open>The statement of C2 in the example repository, whose branch \<^verbatim>\<open>control\<close> has no
  configuration file: the call raises and the active branch is \<^verbatim>\<open>control\<close>.\<close>

theorem checkout_branch_missing_config_witness:
  "fst (checkout_branch example_ext ''control'' False False False None None None
          (Some (Path ''/control'')) None None example_world)
     = Inl (FileNotFoundError ''Configuration file config.yaml not found'')
   \<and> extern (snd (checkout_branch example_ext ''control'' False False False None None None
          (Some (Path ''/control'')) None None example_world)) = ''control''
   \<and> stdout (snd (checkout_branch example_ext ''control'' False False False None None None
          (Some (Path ''/control'')) None None example_world)) = [NO_CONFIG_FOUND_MESSAGE]
   \<and> trace (snd (checkout_branch example_ext ''control'' False False False None None None
          (Some (Path ''/control'')) None None example_world))
       = [Call_git_checkout_branch (Path ''/control'') ''control'' False None]
   \<and> files (snd (checkout_branch example_ext ''control'' False False False None None None
          (Some (Path ''/control'')) None None example_world)) [''control'', ''archive''] = None"
proof -
  let ?w2 = "example_world\<lparr>files := (files example_world)([''control'', ''config.yaml''] := None),
                extern := ''control'',
                trace := [Call_git_checkout_branch (Path ''/control'') ''control'' False None]\<rparr>"
  have a: "(case Some (Path ''/control'') of
              None \<Rightarrow> get_control_path example_ext None example_world
            | Some p \<Rightarrow> (Inr p, example_world)) = (Inr (Path ''/control''), example_world)"
    by simp
  have b: "call_collaborator (Call_git_checkout_branch (Path ''/control'') ''control'' False None)
           (git_checkout_branch example_ext (Path ''/control'') ''control'' False None)
           example_world = (Inr (), ?w2)"
    by (simp add: example_eval Path_def)
  have c: "\<not> path_exists ?w2
            (case None of None \<Rightarrow> Path (DEFAULT_CONFIG_FNAME example_ext) | Some p \<Rightarrow> p)"
    by (simp add: example_eval fs_eval)
  show ?thesis
    using checkout_branch_missing_config [OF a b c, of False False None None None]
    by (simp add: example_eval fs_eval)
qed

text \<open>
  Claim C2 as stated fails: the check is made on the file at the resolved configuration
  path, not on the tree of the branch. The tree of the branch \<^verbatim>\<open>control\<close> has no
  \<^verbatim>\<open>config.yaml\<close> and the checkout leaves none in the control directory. Called with the
  control path \<^verbatim>\<open>/control\<close> from a working directory that has a \<^verbatim>\<open>config.yaml\<close> of its
  own, the call prints no message, returns, and has run the metadata setup; so does a call
  that is given the path of a configuration file outside the control directory.
\<close>

theorem checkout_branch_config_elsewhere_counterexample:
  "map_of example_branches ''control'' = Some control_head
   \<and> \<not> has_blob ''config.yaml'' control_head
   \<and> fst (checkout_branch example_ext ''control'' False False False None None None
            (Some (Path ''/control'')) None None other_cwd_world) = Inr ()
   \<and> files (snd (checkout_branch example_ext ''control'' False False False None None None
            (Some (Path ''/control'')) None None other_cwd_world)) [''control'', ''config.yaml'']
       = None
   \<and> extern (snd (checkout_branch example_ext ''control'' False False False None None None
            (Some (Path ''/control'')) None None other_cwd_world)) = ''control''
   \<and> stdout (snd (checkout_branch example_ext ''control'' False False False None None None
            (Some (Path ''/control'')) None None other_cwd_world)) = []
   \<and> trace (snd (checkout_branch example_ext ''control'' False False False None None None
            (Some (Path ''/control'')) None None other_cwd_world))
       = [Call_git_checkout_branch (Path ''/control'') ''control'' False None,
          Call_Laboratory None (Path ''config.yaml'') None,
          Call_Metadata (Path ''/lab/archive'') ''control'' (Path ''config.yaml''),
          Call_metadata_setup False False]
   \<and> fst (checkout_branch example_ext ''control'' False False False None None
            (Some (Path ''/home/config.yaml'')) (Some (Path ''/control'')) None None
            (other_cwd_world\<lparr>cwd := [''control'']\<rparr>)) = Inr ()"
  by (simp add: checkout_branch_def check_config_path_def switch_symlink_def
      other_cwd_world_def home_world_def example_eval fs_eval)

section \<open>Properties of the clone\<close>

lemma and_then_preserves:
  "P (snd m) \<Longrightarrow> (\<And>a w1. P w1 \<Longrightarrow> P (snd (k a w1))) \<Longrightarrow> P (snd (and_then m k))"
  by (cases m; cases "fst m") (auto simp: and_then_def)

lemma follow_Found_at: "follow n f p = Found l nd \<Longrightarrow> f l = Some nd"
  by (induction n arbitrary: p) (auto split: option.splits node.splits)

lemma follow_Missing_at: "follow n f p = Missing l \<Longrightarrow> f l = None"
  by (induction n arbitrary: p) (auto split: option.splits node.splits)

lemma chdir_real_directory:
  "files w d = Some Dir \<Longrightarrow> chdir (PosixPath True d) w = (Inr (), w\<lparr>cwd := d\<rparr>)"
  by (simp add: chdir_def stat_def absolute_names_def follow_Dir)

lemma chdir_files: "files (snd (chdir p w)) = files w"
  by (auto simp: chdir_def split: lookup.splits node.splits)

text \<open>The directory at \<open>d\<close> stays through every step.\<close>

lemma call_collaborator_keeps:
  "keeps_directory d f \<Longrightarrow> files w d = Some Dir \<Longrightarrow>
   files (snd (call_collaborator c f w)) d = Some Dir"
  unfolding keeps_directory_def call_collaborator_def
  by (auto split: prod.splits) (metis fst_conv snd_conv)

lemma switched_keeps: "f d0 = Some Dir \<Longrightarrow> switched f s d t d0 = Some Dir"
  by (auto simp: switched_def reaches_def follow_Dir)

lemma switch_symlink_keeps:
  "files w d = Some Dir \<Longrightarrow> files (snd (switch_symlink L C E k w)) d = Some Dir"
  by (simp add: switch_symlink_files switched_keeps)

lemma write_file_keeps:
  "files w d = Some Dir \<Longrightarrow> files (snd (write_file p c w)) d = Some Dir"
  by (auto simp: write_file_def stat_def split: lookup.splits node.splits
        dest!: follow_Found_at follow_Missing_at)

lemma read_file_snd: "snd (read_file p w) = w"
  by (auto simp: read_file_def split: lookup.splits node.splits)

lemma add_restart_to_config_keeps:
  "files w d = Some Dir \<Longrightarrow> files (snd (add_restart_to_config ext rp cp w)) d = Some Dir"
  unfolding add_restart_to_config_def
  by (auto simp: warn_def print_def read_file_snd
        intro!: and_then_preserves [where P = "\<lambda>w. files w d = Some Dir"] write_file_keeps)

lemma check_config_path_keeps:
  "files w d = Some Dir \<Longrightarrow> files (snd (check_config_path ext cp w)) d = Some Dir"
  by (auto simp: check_config_path_def Let_def print_def)

lemma checkout_branch_keeps:
  assumes "collaborators_keep_directory ext d" and "files w d = Some Dir"
  shows "files (snd (checkout_branch ext branch_name is_new_branch is_new_experiment keep_uuid
     start_point restart_path config_path (Some cp) model_type lab_path w)) d = Some Dir"
proof -
  have k: "\<And>p b n s. keeps_directory d (git_checkout_branch ext p b n s)"
    "\<And>m p l. keeps_directory d (Laboratory ext m p l)"
    "\<And>a b p. keeps_directory d (Metadata ext a b p)"
    "\<And>m k n. keeps_directory d (metadata_setup ext m k n)"
    using assms(1) by (simp_all add: collaborators_keep_directory_def)
  show ?thesis
    unfolding checkout_branch_def Let_def
    using assms(2)
    by (auto intro!: and_then_preserves [where P = "\<lambda>w. files w d = Some Dir"]
          call_collaborator_keeps k check_config_path_keeps switch_symlink_keeps
          add_restart_to_config_keeps split: option.splits)
qed

text \<open>No step changes the working directory.\<close>

lemma call_collaborator_same_cwd: "cwd (snd (call_collaborator c f w)) = cwd w"
  by (auto simp: call_collaborator_def split: prod.splits)

lemma write_file_cwd: "cwd (snd (write_file p c w)) = cwd w"
  by (auto simp: write_file_def split: lookup.splits node.splits)

lemma add_restart_to_config_cwd:
  "cwd (snd (add_restart_to_config ext rp cp w)) = cwd w"
  unfolding add_restart_to_config_def
  by (auto simp: warn_def print_def read_file_snd write_file_cwd
        intro!: and_then_preserves [where P = "\<lambda>w'. cwd w' = cwd w"])

lemma check_config_path_cwd: "cwd (snd (check_config_path ext cp w)) = cwd w"
  by (auto simp: check_config_path_def Let_def print_def)

lemma get_control_path_cwd: "cwd (snd (get_control_path ext cp w)) = cwd w"
  unfolding get_control_path_def
  by (auto simp: call_collaborator_same_cwd
        intro!: and_then_preserves [where P = "\<lambda>w'. cwd w' = cwd w"]
        split: option.splits)

lemma checkout_branch_cwd:
  "cwd (snd (checkout_branch ext branch_name is_new_branch is_new_experiment keep_uuid
     start_point restart_path config_path control_path model_type lab_path w)) = cwd w"
  unfolding checkout_branch_def Let_def
  by (auto simp: call_collaborator_same_cwd check_config_path_cwd switch_symlink_cwd
          get_control_path_cwd add_restart_to_config_cwd
        intro!: and_then_preserves [where P = "\<lambda>w'. cwd w' = cwd w"]
        split: option.splits)

text \<open>
  Claim C4. The working directory after \<open>clone\<close> is the one before it, whatever the
  outcome: a normal return, a raise of \<^verbatim>\<open>git_clone\<close> itself, of \<^verbatim>\<open>os.chdir\<close> into the
  clone, of \<^verbatim>\<open>get_git_branch\<close>, or of any step of the checkout. The collaborators cannot
  change the working directory; that the directory the process started in is a directory
  and that no collaborator removes it is what lets \<^verbatim>\<open>os.chdir(owd)\<close> in the \<^verbatim>\<open>finally\<close>
  clause go back.
\<close>

theorem clone_restores_cwd:
  assumes "files w (cwd w) = Some Dir" and "collaborators_keep_directory ext (cwd w)"
  shows "cwd (snd (clone ext repository directory branch new_branch_name keep_uuid model_type
                     config_path lab_path restart_path w)) = cwd w"
proof -
  let ?d = "cwd w"
  have k: "\<And>r p b. keeps_directory ?d (git_clone ext r p b)"
    "\<And>p. keeps_directory ?d (get_git_branch ext p)"
    using assms(2) by (simp_all add: collaborators_keep_directory_def)
  obtain r1 w1 where c1:
    "call_collaborator (Call_git_clone repository directory branch)
       (git_clone ext repository directory branch) w = (r1, w1)"
    by (cases "call_collaborator (Call_git_clone repository directory branch)
       (git_clone ext repository directory branch) w")
  have cw1: "cwd w1 = ?d"
    using call_collaborator_same_cwd [of "Call_git_clone repository directory branch"
        "git_clone ext repository directory branch" w] c1 by simp
  have d1: "files w1 ?d = Some Dir"
    using call_collaborator_keeps [OF k(1) assms(1), of "Call_git_clone repository directory branch"
        repository directory branch] c1 by simp
  show ?thesis
  proof (cases r1)
    case (Inl e)
    with c1 cw1 show ?thesis by (simp add: clone_def)
  next
    case (Inr u)
    define body where "body =
      and_then (chdir (resolve w1 directory) w1) (\<lambda>u w2.
        (case new_branch_name of
           Some new_branch \<Rightarrow>
             checkout_branch ext new_branch True False keep_uuid None restart_path
               config_path (Some (resolve w1 directory)) model_type lab_path w2
         | None \<Rightarrow>
             and_then (case branch of
                         None \<Rightarrow> call_collaborator (Call_get_git_branch (resolve w1 directory))
                                   (get_git_branch ext (resolve w1 directory)) w2
                       | Some b \<Rightarrow> (Inr b, w2)) (\<lambda>branch w3.
               checkout_branch ext branch False True keep_uuid None restart_path
                 config_path (Some (resolve w1 directory)) model_type lab_path w3)))"
    have bd: "files (snd body) ?d = Some Dir"
      unfolding body_def using d1
      by (auto simp: chdir_files
            intro!: and_then_preserves [where P = "\<lambda>w'. files w' (cwd w) = Some Dir"]
              checkout_branch_keeps [OF assms(2)] call_collaborator_keeps k
            split: option.splits)
    have fin: "try_finally body (chdir (getcwd w1)) = (fst body, (snd body)\<lparr>cwd := ?d\<rparr>)"
      using chdir_real_directory [OF bd] cw1
      by (cases body) (simp add: try_finally_def getcwd_def)
    have "clone ext repository directory branch new_branch_name keep_uuid model_type
            config_path lab_path restart_path w
          = and_then (fst body, (snd body)\<lparr>cwd := ?d\<rparr>)
              (\<lambda>u w4. (Inr (), print (''To change directory to control directory run:''
                                       @ newline @ ''  cd '' @ path_str directory) w4))"
      using c1 Inr fin by (simp add: clone_def Let_def body_def)
    then show ?thesis
      by (cases "fst body") (simp_all add: print_def)
  qed
qed

lemma example_ext_keeps_home: "collaborators_keep_directory example_ext [''home'']"
  by (auto simp: collaborators_keep_directory_def keeps_directory_def example_ext_def
        split: option.splits)

text \<open>The statement of C4 for a clone of the branch \<^verbatim>\<open>control\<close>, started in
  \<^verbatim>\<open>/home\<close>: the checkout raises inside the clone, and the process is back in \<^verbatim>\<open>/home\<close>.\<close>

theorem clone_restores_cwd_witness:
  "files home_world (cwd home_world) = Some Dir
   \<and> fst (clone example_ext ''repository'' (Path ''/control'') (Some ''control'') None False
            None None None None home_world)
       = Inl (FileNotFoundError ''Configuration file config.yaml not found'')
   \<and> cwd (snd (clone example_ext ''repository'' (Path ''/control'') (Some ''control'') None
                 False None None None None home_world)) = [''home'']"
proof -
  have h: "files home_world (cwd home_world) = Some Dir"
    by (simp add: home_world_def example_world_def)
  have c: "cwd home_world = [''home'']"
    by (simp add: home_world_def)
  have r: "fst (clone example_ext ''repository'' (Path ''/control'') (Some ''control'') None False
            None None None None home_world)
       = Inl (FileNotFoundError ''Configuration file config.yaml not found'')"
    by (simp add: clone_def checkout_branch_def check_config_path_def chdir_def try_finally_def
        getcwd_def home_world_def example_eval fs_eval)
  show ?thesis
    using h r example_ext_keeps_home
      clone_restores_cwd [where w = home_world and ext = example_ext
        and repository = "''repository''" and directory = "Path ''/control''"
        and branch = "Some ''control''" and new_branch_name = None and keep_uuid = False
        and model_type = None and config_path = None and lab_path = None
        and restart_path = None]
    by (simp add: c)
qed

lemma checkout_branch_calls:
  assumes "checkout_branch ext branch_name is_new_branch is_new_experiment keep_uuid start_point
       restart_path config_path control_path model_type lab_path w = (r, w')"
  shows "trace w' = trace w @ new_calls w w'
     \<and> (r = Inr () \<longrightarrow> filter is_metadata_setup (new_calls w w')
        = [Call_metadata_setup keep_uuid (is_new_experiment \<or> is_new_branch)])
     \<and> (filter is_metadata_setup (new_calls w w')
        = [Call_metadata_setup keep_uuid (is_new_experiment \<or> is_new_branch)]
        \<or> filter is_metadata_setup (new_calls w w') = [])"
  using assms
  unfolding checkout_branch_def Let_def and_then_cases new_calls_def
  by (auto dest!: call_collaborator_trace switch_symlink_trace add_restart_to_config_trace
        check_config_path_trace get_control_path_trace split: option.splits)

lemma chdir_trace: "chdir p w = (r, w') \<Longrightarrow> trace w' = trace w"
  by (auto simp: chdir_def split: lookup.splits node.splits)

lemma try_finally_chdir:
  "try_finally (rc, wc) (chdir p) = (r, w') \<Longrightarrow> trace w' = trace wc \<and> (r = Inr () \<longrightarrow> rc = Inr ())"
  by (auto simp: try_finally_def split: prod.splits sum.splits dest: chdir_trace)

text \<open>
  Claim C8. In a call of \<open>clone\<close> without a new branch name, once the repository is cloned
  and the process is in the clone, the rest of the call is the checkout of the chosen
  branch with \<^verbatim>\<open>is_new_branch\<close> false and \<^verbatim>\<open>is_new_experiment\<close> true, inside the
  \<^verbatim>\<open>try\<close>/\<^verbatim>\<open>finally\<close> and followed by the closing line. The chosen branch is the
  \<^verbatim>\<open>branch\<close> argument, and what \<^verbatim>\<open>get_git_branch\<close> answers for the clone (the active
  branch) when the argument is absent. A call that returns has made exactly one call of
  \<^verbatim>\<open>metadata.setup\<close>, with the caller's \<^verbatim>\<open>keep_uuid\<close> and the new-experiment flag set.
\<close>

theorem clone_existing_branch:
  assumes "call_collaborator (Call_git_clone repository directory branch)
             (git_clone ext repository directory branch) w = (Inr (), w1)"
    and "chdir (resolve w1 directory) w1 = (Inr (), w2)"
    and "(case branch of
            None \<Rightarrow> call_collaborator (Call_get_git_branch (resolve w1 directory))
                      (get_git_branch ext (resolve w1 directory)) w2
          | Some b \<Rightarrow> (Inr b, w2)) = (Inr chosen, w3)"
  shows "clone ext repository directory branch None keep_uuid model_type config_path lab_path
           restart_path w
         = and_then
             (try_finally
                (checkout_branch ext chosen False True keep_uuid None restart_path config_path
                   (Some (resolve w1 directory)) model_type lab_path w3)
                (chdir (getcwd w1)))
             (\<lambda>u w4. (Inr (), print (''To change directory to control directory run:''
                                      @ newline @ ''  cd '' @ path_str directory) w4))
    \<and> (case branch of
          None \<Rightarrow> fst (get_git_branch ext (resolve w1 directory) (cwd w2) (files w2, extern w2))
                    = Inr chosen
        | Some b \<Rightarrow> chosen = b)
    \<and> (fst (clone ext repository directory branch None keep_uuid model_type config_path
               lab_path restart_path w) = Inr () \<longrightarrow>
        filter is_metadata_setup
          (new_calls w (snd (clone ext repository directory branch None keep_uuid model_type
                               config_path lab_path restart_path w)))
        = [Call_metadata_setup keep_uuid True])"
proof (intro conjI impI)
  let ?msg = "''To change directory to control directory run:'' @ newline @ ''  cd ''
              @ path_str directory"
  let ?co = "checkout_branch ext chosen False True keep_uuid None restart_path config_path
               (Some (resolve w1 directory)) model_type lab_path w3"
  show eq: "clone ext repository directory branch None keep_uuid model_type config_path lab_path
           restart_path w
         = and_then (try_finally ?co (chdir (getcwd w1))) (\<lambda>u w4. (Inr (), print ?msg w4))"
    using assms by (simp add: clone_def Let_def)
  show "(case branch of
          None \<Rightarrow> fst (get_git_branch ext (resolve w1 directory) (cwd w2) (files w2, extern w2))
                    = Inr chosen
        | Some b \<Rightarrow> chosen = b)"
    using assms(3) by (auto simp: call_collaborator_def split: option.splits prod.splits)
  assume ok: "fst (clone ext repository directory branch None keep_uuid model_type config_path
               lab_path restart_path w) = Inr ()"
  obtain rc wc where co: "?co = (rc, wc)" by (cases ?co)
  obtain rf wf where tf: "try_finally (rc, wc) (chdir (getcwd w1)) = (rf, wf)"
    by (cases "try_finally (rc, wc) (chdir (getcwd w1))")
  have rf: "rf = Inr ()"
    using ok eq co tf by (cases rf) simp_all
  have fin: "clone ext repository directory branch None keep_uuid model_type config_path lab_path
           restart_path w = (Inr (), print ?msg wf)"
    using eq co tf rf by simp
  have rc: "rc = Inr ()" and twf: "trace wf = trace wc"
    using try_finally_chdir [OF tf] rf by simp_all
  have t1: "trace w1 = trace w @ [Call_git_clone repository directory branch]"
    using assms(1) by (rule call_collaborator_trace)
  have t2: "trace w2 = trace w1"
    using assms(2) by (rule chdir_trace)
  have t3: "\<exists>pre. trace w3 = trace w2 @ pre \<and> filter is_metadata_setup pre = []"
    using assms(3) by (cases branch) (auto dest!: call_collaborator_trace)
  then obtain pre where pre: "trace w3 = trace w2 @ pre" "filter is_metadata_setup pre = []"
    by blast
  have cs: "trace wc = trace w3 @ new_calls w3 wc"
    "filter is_metadata_setup (new_calls w3 wc) = [Call_metadata_setup keep_uuid True]"
    using checkout_branch_calls [OF co] rc by simp_all
  define cs0 where "cs0 = new_calls w3 wc"
  have "trace wf = trace w @ (Call_git_clone repository directory branch # pre @ cs0)"
    using cs(1) pre(1) t1 t2 twf by (simp add: cs0_def)
  then have "new_calls w (print ?msg wf)
        = Call_git_clone repository directory branch # pre @ cs0"
    by (simp add: new_calls_def print_def)
  then show "filter is_metadata_setup
          (new_calls w (snd (clone ext repository directory branch None keep_uuid model_type
                               config_path lab_path restart_path w)))
        = [Call_metadata_setup keep_uuid True]"
    using fin cs(2) pre(2) by (simp add: cs0_def)
qed

text \<open>The statement of C8 for a clone with neither branch nor new branch name: the
  branch checked out is \<^verbatim>\<open>main\<close>, the active branch of the example clone.\<close>

theorem clone_existing_branch_witness:
  "fst (clone example_ext ''repository'' (Path ''/control'') None None False None None None None
          home_world) = Inr ()
   \<and> trace (snd (clone example_ext ''repository'' (Path ''/control'') None None False None None
                   None None home_world))
       = [Call_git_clone ''repository'' (Path ''/control'') None,
          Call_get_git_branch (Path ''/control''),
          Call_git_checkout_branch (Path ''/control'') ''main'' False None,
          Call_Laboratory None (Path ''config.yaml'') None,
          Call_Metadata (Path ''/lab/archive'') ''main'' (Path ''config.yaml''),
          Call_metadata_setup False True]
   \<and> filter is_metadata_setup
        (new_calls home_world
           (snd (clone example_ext ''repository'' (Path ''/control'') None None False None None
                   None None home_world)))
       = [Call_metadata_setup False True]"
proof -
  let ?c1 = "call_collaborator (Call_git_clone ''repository'' (Path ''/control'') None)
               (git_clone example_ext ''repository'' (Path ''/control'') None) home_world"
  let ?cp = "resolve (snd ?c1) (Path ''/control'')"
  let ?c2 = "chdir ?cp (snd ?c1)"
  let ?c3 = "call_collaborator (Call_get_git_branch ?cp) (get_git_branch example_ext ?cp)
               (snd ?c2)"
  have a: "?c1 = (Inr (), snd ?c1)"
    by (simp add: prod_eq_iff home_world_def example_eval)
  have b: "?c2 = (Inr (), snd ?c2)"
    by (simp add: prod_eq_iff chdir_def home_world_def example_eval fs_eval)
  have c: "(case None of None \<Rightarrow> ?c3 | Some b \<Rightarrow> (Inr b, snd ?c2)) = (Inr ''main'', snd ?c3)"
    by (simp add: prod_eq_iff chdir_def home_world_def example_eval fs_eval)
  have run: "fst (clone example_ext ''repository'' (Path ''/control'') None None False None None
          None None home_world) = Inr ()
   \<and> trace (snd (clone example_ext ''repository'' (Path ''/control'') None None False None None
                   None None home_world))
       = [Call_git_clone ''repository'' (Path ''/control'') None,
          Call_get_git_branch (Path ''/control''),
          Call_git_checkout_branch (Path ''/control'') ''main'' False None,
          Call_Laboratory None (Path ''config.yaml'') None,
          Call_Metadata (Path ''/lab/archive'') ''main'' (Path ''config.yaml''),
          Call_metadata_setup False True]"
    by (simp add: clone_def checkout_branch_def check_config_path_def chdir_def try_finally_def
        switch_symlink_def getcwd_def home_world_def example_eval fs_eval)
  note third = clone_existing_branch [OF a b c, of False None None None None,
      THEN conjunct2, THEN conjunct2]
  show ?thesis
    using run third by blast
qed

section \<open>The call of the metadata setup\<close>

lemma write_file_extern_trace:
  "extern (snd (write_file p c w)) = extern w \<and> trace (snd (write_file p c w)) = trace w"
  by (auto simp: write_file_def split: lookup.splits node.splits)

lemma add_restart_to_config_extern_trace:
  "extern (snd (add_restart_to_config ext rp cp w)) = extern w
   \<and> trace (snd (add_restart_to_config ext rp cp w)) = trace w"
  unfolding add_restart_to_config_def
  by (auto simp: warn_def print_def read_file_snd write_file_extern_trace
        intro!: and_then_preserves [where P = "\<lambda>w'. extern w' = extern w \<and> trace w' = trace w"])

lemma switch_symlink_extern_trace:
  "extern (snd (switch_symlink L C E k w)) = extern w
   \<and> trace (snd (switch_symlink L C E k w)) = trace w"
  by (auto simp: switch_symlink_def Let_def bound_method_truth_def unlink_def
        symlink_to_def print_def split: option.splits node.splits)

lemma after_setup_extern_trace:
  "extern (snd (and_then (case restart_path of
                            None \<Rightarrow> (Inr (), w)
                          | Some rp \<Rightarrow> add_restart_to_config ext rp cfg w) (\<lambda>u w7.
                and_then (switch_symlink La cp ex ''archive'' w7) (\<lambda>u w8.
                  switch_symlink Lw cp ex ''work'' w8)))) = extern w
   \<and> trace (snd (and_then (case restart_path of
                            None \<Rightarrow> (Inr (), w)
                          | Some rp \<Rightarrow> add_restart_to_config ext rp cfg w) (\<lambda>u w7.
                and_then (switch_symlink La cp ex ''archive'' w7) (\<lambda>u w8.
                  switch_symlink Lw cp ex ''work'' w8)))) = trace w"
  by (rule and_then_preserves [where P = "\<lambda>w'. extern w' = extern w \<and> trace w' = trace w"])
     (auto simp: add_restart_to_config_extern_trace switch_symlink_extern_trace
        intro!: and_then_preserves [where P = "\<lambda>w'. extern w' = extern w \<and> trace w' = trace w"]
        split: option.splits)

text \<open>
  Claim C3, amended. When the steps before it return (the control path, the git checkout,
  the check of the configuration file, \<^verbatim>\<open>Laboratory\<close>, \<^verbatim>\<open>Metadata\<close>), the rest of the call
  is the one call of \<^verbatim>\<open>metadata.setup\<close> on the metadata object, with \<^verbatim>\<open>keep_uuid\<close> as given
  and the new-experiment flag \<^verbatim>\<open>is_new_experiment or is_new_branch\<close>, followed by the
  restart and the two links; the state of the collaborators at the end of the call is the
  state that this one call of the collaborator returned, and the record of calls has
  exactly one setup, with these arguments. In every call, also one that raises earlier,
  the record has that one setup or none.
\<close>

theorem checkout_branch_metadata_setup_call:
  "((case control_path of
       None \<Rightarrow> get_control_path ext config_path w
     | Some p \<Rightarrow> (Inr p, w)) = (Inr cp, w1)
    \<and> call_collaborator (Call_git_checkout_branch cp branch_name is_new_branch start_point)
          (git_checkout_branch ext cp branch_name is_new_branch start_point) w1 = (Inr (), w2)
    \<and> check_config_path ext config_path w2 = (Inr cfg, w3)
    \<and> call_collaborator (Call_Laboratory model_type cfg lab_path)
          (Laboratory ext model_type cfg lab_path) w3 = (Inr lab, w4)
    \<and> call_collaborator (Call_Metadata (Path (archive_path lab)) branch_name cfg)
          (Metadata ext (Path (archive_path lab)) branch_name cfg) w4 = (Inr metadata, w5)
    \<longrightarrow>
      checkout_branch ext branch_name is_new_branch is_new_experiment keep_uuid start_point
        restart_path config_path control_path model_type lab_path w
      = and_then
          (call_collaborator (Call_metadata_setup keep_uuid (is_new_experiment \<or> is_new_branch))
             (metadata_setup ext metadata keep_uuid (is_new_experiment \<or> is_new_branch)) w5)
          (\<lambda>metadata' w6.
             and_then (case restart_path of
                         None \<Rightarrow> (Inr (), w6)
                       | Some rp \<Rightarrow> add_restart_to_config ext rp cfg w6) (\<lambda>u w7.
             and_then (switch_symlink (Path (archive_path lab)) cp
                         (experiment_name ext metadata') ''archive'' w7) (\<lambda>u w8.
               switch_symlink (Path (work_path lab)) cp
                 (experiment_name ext metadata') ''work'' w8)))
      \<and> extern (snd (checkout_branch ext branch_name is_new_branch is_new_experiment keep_uuid
                        start_point restart_path config_path control_path model_type lab_path w))
          = snd (snd (metadata_setup ext metadata keep_uuid (is_new_experiment \<or> is_new_branch)
                        (cwd w5) (files w5, extern w5)))
      \<and> filter is_metadata_setup
            (new_calls w (snd (checkout_branch ext branch_name is_new_branch is_new_experiment
               keep_uuid start_point restart_path config_path control_path model_type lab_path
               w)))
          = [Call_metadata_setup keep_uuid (is_new_experiment \<or> is_new_branch)])
   \<and> (filter is_metadata_setup
         (new_calls w (snd (checkout_branch ext branch_name is_new_branch is_new_experiment
            keep_uuid start_point restart_path config_path control_path model_type lab_path w)))
       = [Call_metadata_setup keep_uuid (is_new_experiment \<or> is_new_branch)]
       \<or> filter is_metadata_setup
         (new_calls w (snd (checkout_branch ext branch_name is_new_branch is_new_experiment
            keep_uuid start_point restart_path config_path control_path model_type lab_path w)))
       = [])"
proof (intro conjI impI)
  let ?run = "checkout_branch ext branch_name is_new_branch is_new_experiment keep_uuid
                start_point restart_path config_path control_path model_type lab_path w"
  let ?S = "Call_metadata_setup keep_uuid (is_new_experiment \<or> is_new_branch)"
  show "filter is_metadata_setup (new_calls w (snd ?run)) = [?S]
        \<or> filter is_metadata_setup (new_calls w (snd ?run)) = []"
    using checkout_branch_calls [of ext branch_name is_new_branch is_new_experiment keep_uuid
        start_point restart_path config_path control_path model_type lab_path w "fst ?run"
        "snd ?run"]
    by simp
next
  let ?run = "checkout_branch ext branch_name is_new_branch is_new_experiment keep_uuid
                start_point restart_path config_path control_path model_type lab_path w"
  let ?S = "Call_metadata_setup keep_uuid (is_new_experiment \<or> is_new_branch)"
  let ?f = "metadata_setup ext metadata keep_uuid (is_new_experiment \<or> is_new_branch)"
  let ?K = "\<lambda>metadata' w6.
             and_then (case restart_path of
                         None \<Rightarrow> (Inr (), w6)
                       | Some rp \<Rightarrow> add_restart_to_config ext rp cfg w6) (\<lambda>u w7.
             and_then (switch_symlink (Path (archive_path lab)) cp
                         (experiment_name ext metadata') ''archive'' w7) (\<lambda>u w8.
               switch_symlink (Path (work_path lab)) cp
                 (experiment_name ext metadata') ''work'' w8))"
  assume steps: "(case control_path of
       None \<Rightarrow> get_control_path ext config_path w
     | Some p \<Rightarrow> (Inr p, w)) = (Inr cp, w1)
    \<and> call_collaborator (Call_git_checkout_branch cp branch_name is_new_branch start_point)
          (git_checkout_branch ext cp branch_name is_new_branch start_point) w1 = (Inr (), w2)
    \<and> check_config_path ext config_path w2 = (Inr cfg, w3)
    \<and> call_collaborator (Call_Laboratory model_type cfg lab_path)
          (Laboratory ext model_type cfg lab_path) w3 = (Inr lab, w4)
    \<and> call_collaborator (Call_Metadata (Path (archive_path lab)) branch_name cfg)
          (Metadata ext (Path (archive_path lab)) branch_name cfg) w4 = (Inr metadata, w5)"
  then show eq: "?run = and_then (call_collaborator ?S ?f w5) ?K"
    by (simp add: checkout_branch_def Let_def)
  obtain r6 w6 where c6: "call_collaborator ?S ?f w5 = (r6, w6)"
    by (cases "call_collaborator ?S ?f w5")
  have x6: "extern w6 = snd (snd (?f (cwd w5) (files w5, extern w5)))"
    using c6 by (auto simp: call_collaborator_def split: prod.splits)
  have t6: "trace w6 = trace w5 @ [?S]"
    using c6 by (rule call_collaborator_trace)
  have fin: "extern (snd ?run) = extern w6 \<and> trace (snd ?run) = trace w6"
    unfolding eq c6
    by (cases r6) (simp_all add: after_setup_extern_trace)
  show "extern (snd ?run) = snd (snd (?f (cwd w5) (files w5, extern w5)))"
    using fin x6 by simp
  have "\<exists>pre. trace w5 = trace w @ pre \<and> filter is_metadata_setup pre = []"
    using steps
    by (cases control_path)
       (auto dest!: call_collaborator_trace check_config_path_trace get_control_path_trace)
  then obtain pre where pre: "trace w5 = trace w @ pre" "filter is_metadata_setup pre = []"
    by blast
  have "new_calls w (snd ?run) = pre @ [?S]"
    using fin t6 pre(1) by (simp add: new_calls_def)
  then show "filter is_metadata_setup (new_calls w (snd ?run)) = [?S]"
    using pre(2) by simp
qed

lemmas recording_eval = recording_ext_def recording_world_def recording_world_no_config_def
  call_collaborator_def checkout_branch_def check_config_path_def switch_symlink_def
  new_calls_def

text \<open>The statement of C3 as amended, for a new branch \<^verbatim>\<open>expt2\<close> from \<^verbatim>\<open>main\<close> with
  \<^verbatim>\<open>is_new_experiment\<close> not set, with the collaborators that record the arguments they
  are given: the setup received \<^verbatim>\<open>(False, True)\<close>, once.\<close>

theorem checkout_branch_metadata_setup_call_witness:
  "fst (checkout_branch recording_ext ''expt2'' True False False (Some ''main'') None None
          (Some (Path ''/control'')) None None recording_world) = Inr ()
   \<and> extern (snd (checkout_branch recording_ext ''expt2'' True False False (Some ''main'') None
                    None (Some (Path ''/control'')) None None recording_world))
       = [(False, True)]
   \<and> filter is_metadata_setup
        (new_calls recording_world
           (snd (checkout_branch recording_ext ''expt2'' True False False (Some ''main'') None
                   None (Some (Path ''/control'')) None None recording_world)))
       = [Call_metadata_setup False True]"
proof -
  let ?cp = "Path ''/control''"
  let ?cfg = "Path ''config.yaml''"
  let ?lab = "\<lparr>archive_path = ''/lab/archive'', work_path = ''/lab/work''\<rparr>"
  let ?c2 = "call_collaborator (Call_git_checkout_branch ?cp ''expt2'' True (Some ''main''))
               (git_checkout_branch recording_ext ?cp ''expt2'' True (Some ''main''))
               recording_world"
  let ?c3 = "check_config_path recording_ext None (snd ?c2)"
  let ?c4 = "call_collaborator (Call_Laboratory None ?cfg None)
               (Laboratory recording_ext None ?cfg None) (snd ?c3)"
  let ?c5 = "call_collaborator (Call_Metadata (Path (archive_path ?lab)) ''expt2'' ?cfg)
               (Metadata recording_ext (Path (archive_path ?lab)) ''expt2'' ?cfg) (snd ?c4)"
  have steps: "(case Some ?cp of
       None \<Rightarrow> get_control_path recording_ext None recording_world
     | Some p \<Rightarrow> (Inr p, recording_world)) = (Inr ?cp, recording_world)
    \<and> ?c2 = (Inr (), snd ?c2)
    \<and> ?c3 = (Inr ?cfg, snd ?c3)
    \<and> ?c4 = (Inr ?lab, snd ?c4)
    \<and> ?c5 = (Inr ''expt2'', snd ?c5)"
    by (simp add: prod_eq_iff recording_eval fs_eval)
  have ok: "fst (checkout_branch recording_ext ''expt2'' True False False (Some ''main'') None
          None (Some (Path ''/control'')) None None recording_world) = Inr ()"
    by (simp add: recording_eval fs_eval)
  have arg: "snd (snd (metadata_setup recording_ext ''expt2'' False (False \<or> True)
                         (cwd (snd ?c5)) (files (snd ?c5), extern (snd ?c5)))) = [(False, True)]"
    by (simp add: recording_eval fs_eval)
  note call = checkout_branch_metadata_setup_call [where ext = recording_ext
      and branch_name = "''expt2''" and is_new_branch = True and is_new_experiment = False
      and keep_uuid = False and start_point = "Some ''main''" and restart_path = None
      and config_path = None and control_path = "Some ?cp" and model_type = None
      and lab_path = None and w = recording_world and cp = ?cp and ?w1.0 = recording_world
      and ?w2.0 = "snd ?c2" and cfg = ?cfg and ?w3.0 = "snd ?c3" and lab = ?lab
      and ?w4.0 = "snd ?c4" and metadata = "''expt2''" and ?w5.0 = "snd ?c5",
      THEN conjunct1, rule_format, OF steps, THEN conjunct2]
  show ?thesis
    using ok arg call by simp
qed

text \<open>
  Claim C3 as stated fails for a call that raises before the step: on a control directory
  without a configuration file the call raises at the check, and the recording
  collaborators were never given a setup.
\<close>

theorem checkout_branch_no_setup_counterexample:
  "fst (checkout_branch recording_ext ''control'' False False False None None None
          (Some (Path ''/control'')) None None recording_world_no_config)
     = Inl (FileNotFoundError ''Configuration file config.yaml not found'')
   \<and> extern (snd (checkout_branch recording_ext ''control'' False False False None None None
                    (Some (Path ''/control'')) None None recording_world_no_config)) = []
   \<and> filter is_metadata_setup
        (new_calls recording_world_no_config
           (snd (checkout_branch recording_ext ''control'' False False False None None None
                   (Some (Path ''/control'')) None None recording_world_no_config)))
       \<noteq> [Call_metadata_setup False (False \<or> False)]"
  by (simp add: recording_eval fs_eval print_def)

section \<open>Properties of the branch inspector\<close>

lemma scan_blobs_eq:
  "scan_blobs bs (cc, mc) =
     (cc \<or> ''config.yaml'' \<in> set (map blob_name bs),
      case filter (\<lambda>x. blob_name x = ''metadata.yaml'') bs of
        [] \<Rightarrow> mc
      | x # xs \<Rightarrow> Some (blob_data (last (x # xs))))"
  by (induction bs arbitrary: cc mc) (auto split: list.splits)

lemma print_lines_eq:
  "print_lines ls w = w\<lparr>stdout := stdout w @ map (\<lambda>line. ''    '' @ line) ls\<rparr>"
  by (induction ls arbitrary: w) (simp_all add: print_def)

lemma print_branch_metadata_summary:
  "print_branch_metadata ext b verbose w = (Inr (), w') \<Longrightarrow>
   w' = w\<lparr>stdout := stdout w @ summary ext verbose b\<rparr>"
  by (auto simp: print_branch_metadata_def summary_def scan_blobs_eq has_blob_def blob_text_def
        uuid_of_def print_def print_lines_eq and_then_def
        split: list.splits if_splits sum.splits option.splits)

lemma list_branches_loop_listing:
  "list_branches_loop ext label current verbose bs w = (Inr (), w') \<Longrightarrow>
   w' = w\<lparr>stdout := stdout w
          @ concat (map (\<lambda>(n, b). (label @ '': '' @ n) # summary ext verbose b)
                      (filter (\<lambda>(n, b). ref_path b \<noteq> ref_path current) bs))\<rparr>"
proof (induction bs arbitrary: w)
  case Nil
  then show ?case by simp
next
  case (Cons nb bs)
  obtain n b where nb: "nb = (n, b)" by (cases nb)
  show ?case
  proof (cases "head_ne b current")
    case True
    from Cons.prems obtain w1 where
      p: "print_branch_metadata ext b verbose (print (label @ '': '' @ n) w) = (Inr (), w1)"
      and rest: "list_branches_loop ext label current verbose bs w1 = (Inr (), w')"
      using True by (auto simp: nb and_then_cases)
    from print_branch_metadata_summary [OF p] Cons.IH [OF rest] True
    show ?thesis by (simp add: nb print_def head_ne_def)
  next
    case False
    with Cons.prems have "list_branches_loop ext label current verbose bs w = (Inr (), w')"
      by (simp add: nb)
    from Cons.IH [OF this] False show ?thesis by (simp add: nb head_ne_def)
  qed
qed

text \<open>
  Claim C9, amended. In a call of \<open>list_branches\<close> that returns, with \<open>current\<close> the active
  branch and \<open>branches\<close> the dictionary of the chosen kind (local or remote), the lines
  printed are: the header of the active branch and its summary; then, for each entry of
  the dictionary in turn whose branch is not the active one, its label line and its
  summary. The summary of a branch is \<^verbatim>\<open>No config file found\<close> when the tree has no
  \<^verbatim>\<open>config.yaml\<close>, else \<^verbatim>\<open>No metadata file found\<close> when it has no \<^verbatim>\<open>metadata.yaml\<close>, else,
  in verbose mode, every line of the metadata file and, otherwise, the UUID field or
  \<^verbatim>\<open>No UUID in metadata file\<close>.
\<close>

theorem list_branches_output:
  assumes "get_control_path ext config_path w = (Inr control_path, w1)"
    and "call_collaborator (Call_get_git_repository control_path)
           (get_git_repository ext control_path) w1 = (Inr repo, w2)"
    and "active_branch ext repo (files w2, extern w2) = Inr current"
    and "fst ((if remote then remote_branches_dict ext repo else local_branches_dict ext repo)
               (cwd w2) (files w2, extern w2)) = Inr branches"
    and "list_branches ext config_path verbose remote w = (Inr (), w')"
  shows "stdout w' = stdout w
           @ listing (summary ext verbose) (if remote then ''Remote Branch'' else ''Branch'')
               current branches"
proof -
  have s1: "stdout w1 = stdout w"
    using assms(1)
    by (auto simp: get_control_path_def and_then_cases dest!: call_collaborator_stdout
          split: option.splits)
  have s2: "stdout w2 = stdout w1"
    using assms(2) by (rule call_collaborator_stdout)
  let ?w3 = "print (''* Current Branch: '' @ head_name current) w2"
  from assms(5) obtain w4 where
    p: "print_branch_metadata ext current verbose ?w3 = (Inr (), w4)"
    and rest: "and_then (if remote
               then and_then (call_collaborator Call_remote_branches_dict
                                (remote_branches_dict ext repo) w4)
                      (\<lambda>branches w5. (Inr (branches, ''Remote Branch''), w5))
               else and_then (call_collaborator Call_local_branches_dict
                                (local_branches_dict ext repo) w4)
                      (\<lambda>branches w5. (Inr (branches, ''Branch''), w5)))
       (\<lambda>(branches, label) w6.
          list_branches_loop ext label current verbose branches w6) = (Inr (), w')"
    using assms(1,2,3) by (auto simp: list_branches_def and_then_cases)
  have w4: "w4 = ?w3\<lparr>stdout := stdout ?w3 @ summary ext verbose current\<rparr>"
    using p by (rule print_branch_metadata_summary)
  have same: "cwd w4 = cwd w2" "files w4 = files w2" "extern w4 = extern w2"
    by (simp_all add: w4 print_def)
  let ?label = "if remote then ''Remote Branch'' else ''Branch''"
  from rest obtain w6 where
    loop: "list_branches_loop ext ?label current verbose branches w6 = (Inr (), w')"
    and s6: "stdout w6 = stdout w4"
    using assms(4) same
    by (cases remote)
       (auto simp: and_then_cases call_collaborator_def split: prod.splits)
  from list_branches_loop_listing [OF loop] s6 w4 s1 s2
  show ?thesis by (simp add: listing_def print_def)
qed

lemmas listing_eval = list_branches_def get_control_path_def print_branch_metadata_def
  listing_def summary_def claimed_summary_def has_blob_def blob_text_def uuid_of_def
  head_ne_def main_head_def expt1_head_def old_head_def control_head_def
  example_branches_def

text \<open>The statement of C9 as amended, for the local branches of the example repository,
  not verbose.\<close>

theorem list_branches_output_witness:
  "fst (list_branches example_ext None False False example_world) = Inr ()
   \<and> stdout (snd (list_branches example_ext None False False example_world))
       = [''* Current Branch: main'', ''    experiment_uuid: abc-000'',
          ''Branch: expt1'', ''    experiment_uuid: abc-123'',
          ''Branch: old'', ''    No UUID in metadata file'',
          ''Branch: control'', ''    No config file found'']"
proof -
  let ?run = "list_branches example_ext None False False example_world"
  let ?g = "get_control_path example_ext None example_world"
  let ?r = "call_collaborator (Call_get_git_repository (Path ''/control''))
              (get_git_repository example_ext (Path ''/control'')) (snd ?g)"
  have ok: "fst ?run = Inr ()"
    by (simp add: listing_eval example_eval print_def)
  have a: "?g = (Inr (Path ''/control''), snd ?g)"
    by (simp add: prod_eq_iff get_control_path_def example_eval)
  have b: "?r = (Inr (), snd ?r)"
    by (simp add: prod_eq_iff example_eval)
  have c: "active_branch example_ext () (files (snd ?r), extern (snd ?r)) = Inr main_head"
    by (simp add: example_ext_def)
  have d: "fst ((if False then remote_branches_dict example_ext ()
                 else local_branches_dict example_ext ())
                  (cwd (snd ?r)) (files (snd ?r), extern (snd ?r))) = Inr example_branches"
    by (simp add: example_ext_def)
  have e: "?run = (Inr (), snd ?run)"
    using ok by (simp add: prod_eq_iff)
  have out: "stdout (snd ?run) = stdout example_world
           @ listing (summary example_ext False) (if False then ''Remote Branch'' else ''Branch'')
               main_head example_branches"
    by (rule list_branches_output [OF a b c d e])
  have "stdout example_world
           @ listing (summary example_ext False) (if False then ''Remote Branch'' else ''Branch'')
               main_head example_branches
       = [''* Current Branch: main'', ''    experiment_uuid: abc-000'',
          ''Branch: expt1'', ''    experiment_uuid: abc-123'',
          ''Branch: old'', ''    No UUID in metadata file'',
          ''Branch: control'', ''    No config file found'']"
    by (simp add: listing_eval example_eval)
  with ok out show ?thesis by simp
qed

text \<open>
  Claim C9 as stated fails in verbose mode. The branch \<^verbatim>\<open>old\<close> of the example repository
  has a configuration file and a metadata file without a UUID: the call prints the line
  of the metadata file, where the claim has \<^verbatim>\<open>No UUID in metadata file\<close>.
\<close>

theorem list_branches_verbose_counterexample:
  "fst (list_branches example_ext None True False example_world) = Inr ()
   \<and> stdout (snd (list_branches example_ext None True False example_world))
       = [''* Current Branch: main'', ''    experiment_uuid: abc-000'',
          ''Branch: expt1'', ''    experiment_uuid: abc-123'',
          ''Branch: old'', ''    created: 2024'',
          ''Branch: control'', ''    No config file found'']
   \<and> listing (claimed_summary example_ext) ''Branch'' main_head example_branches
       = [''* Current Branch: main'', ''    experiment_uuid: abc-000'',
          ''Branch: expt1'', ''    experiment_uuid: abc-123'',
          ''Branch: old'', ''    No UUID in metadata file'',
          ''Branch: control'', ''    No config file found'']
   \<and> stdout (snd (list_branches example_ext None True False example_world))
       \<noteq> stdout example_world
           @ listing (claimed_summary example_ext) ''Branch'' main_head example_branches"
  by (simp add: listing_eval example_eval print_def print_lines_eq)

end
